theory Spec2Isabelle
  imports Main "HOL-Library.Word"
begin

section \<open>Strings, bytes and the Python library\<close>

text \<open>
  A Python \<open>str\<close> is a sequence of Unicode code points, so it is modelled as a list of
  natural numbers; \<open>ustr\<close> turns an ASCII literal of the source into that form.
  \<open>bytes\<close> are lists of 8-bit words.
\<close>

type_synonym ustring = "nat list"
type_synonym byte = "8 word"

definition ustr :: "string \<Rightarrow> ustring" where
  "ustr s = map of_char s"

text \<open>
  The Unicode character database of the interpreter is not part of the repository.
  Its ASCII part is written out in \<open>is_word\<close> and \<open>upper_cp\<close> below; everything
  beyond ASCII is taken as a parameter: which code points \<open>str.isalnum\<close> accepts (they
  are the non-ASCII characters matched by \<open>\w\<close>), and the full upper-case mapping of
  \<open>str.upper\<close>, which may yield several code points for one.
\<close>

record ucd =
  ucd_alnum :: "nat \<Rightarrow> bool"
  ucd_upper :: "nat \<Rightarrow> nat list"

definition is_word :: "ucd \<Rightarrow> nat \<Rightarrow> bool" where
  \<comment> \<open>the class \<open>\w\<close> of \<open>re\<close> on a \<open>str\<close> pattern: alphanumeric or underscore\<close>
  "is_word U c =
     (if c < 128
      then (48 \<le> c \<and> c \<le> 57) \<or> (65 \<le> c \<and> c \<le> 90) \<or> (97 \<le> c \<and> c \<le> 122) \<or> c = 95
      else ucd_alnum U c)"

definition upper_cp :: "ucd \<Rightarrow> nat \<Rightarrow> nat list" where
  "upper_cp U c =
     (if 97 \<le> c \<and> c \<le> 122 then [c - 32]
      else if c < 128 then [c]
      else ucd_upper U c)"

definition str_upper :: "ucd \<Rightarrow> ustring \<Rightarrow> ustring" where
  \<comment> \<open>\<open>s.upper()\<close>: the mapping is applied code point by code point\<close>
  "str_upper U s = concat (map (upper_cp U) s)"

definition replace_space :: "ustring \<Rightarrow> ustring" where
  \<comment> \<open>\<open>s.replace(' ', '_')\<close>\<close>
  "replace_space s = map (\<lambda>c. if c = 32 then 95 else c) s"

text \<open>
  \<open>re.sub(r'\W+', '', s)\<close> scans from the left and deletes every maximal run of
  non-word characters.
\<close>

function re_sub_nonword :: "ucd \<Rightarrow> ustring \<Rightarrow> ustring" where
  "re_sub_nonword U [] = []"
| "re_sub_nonword U (c # cs) =
     (if is_word U c then c # re_sub_nonword U cs
      else re_sub_nonword U (dropWhile (\<lambda>d. \<not> is_word U d) cs))"
  by pat_completeness auto
termination
proof (relation "measure (\<lambda>(U, s). length s)")
  show "wf (measure (\<lambda>(U, s). length s))"
    by simp
next
  fix U :: ucd and c :: nat and cs :: ustring
  show "((U, cs), (U, c # cs)) \<in> measure (\<lambda>(U, s). length s)"
    by simp
next
  fix U :: ucd and c :: nat and cs :: ustring
  have "length (dropWhile (\<lambda>d. \<not> is_word U d) cs) \<le> length cs"
    by (rule length_dropWhile_le)
  then show "((U, dropWhile (\<lambda>d. \<not> is_word U d) cs), (U, c # cs))
               \<in> measure (\<lambda>(U, s). length s)"
    by simp
qed

text \<open>\<open>str(n)\<close> for a non-negative integer, as the f-strings of the source format it.\<close>

fun str_nat :: "nat \<Rightarrow> ustring" where
  "str_nat n = (if n < 10 then [48 + n] else str_nat (n div 10) @ [48 + n mod 10])"

declare str_nat.simps [simp del]

section \<open>Table names (\<open>app/models/dynamic_models.py\<close>)\<close>

definition clean_client_name :: "ucd \<Rightarrow> ustring \<Rightarrow> ustring" where
  "clean_client_name U client_name =
     str_upper U (re_sub_nonword U (replace_space client_name))"

definition clean_system_name :: "ucd \<Rightarrow> ustring \<Rightarrow> ustring" where
  "clean_system_name U system_name =
     str_upper U (re_sub_nonword U (replace_space system_name))"

definition get_lice_data_tablename :: "ucd \<Rightarrow> ustring \<Rightarrow> ustring \<Rightarrow> ustring" where
  "get_lice_data_tablename U client_name system_name =
     (let client = clean_client_name U client_name;
          system = clean_system_name U system_name
      in ustr ''Z_FUE_'' @ client @ ustr ''_'' @ system @ ustr ''_ROLE_OBJ_LICENSE_INFO'')"

definition get_auth_data_tablename :: "ucd \<Rightarrow> ustring \<Rightarrow> ustring \<Rightarrow> ustring" where
  "get_auth_data_tablename U client_name system_name =
     (let client = clean_client_name U client_name;
          system = clean_system_name U system_name
      in ustr ''Z_FUE_'' @ client @ ustr ''_'' @ system @ ustr ''_ROLE_AUTH_OBJ_DATA'')"

definition get_role_fiori_data_tablename :: "ucd \<Rightarrow> ustring \<Rightarrow> ustring \<Rightarrow> ustring" where
  "get_role_fiori_data_tablename U client_name system_name =
     (let client = clean_client_name U client_name;
          system = clean_system_name U system_name
      in ustr ''Z_FUE_'' @ client @ ustr ''_'' @ system @ ustr ''_ROLE_FIORI_DATA'')"

definition get_role_master_derived_data_tablename :: "ucd \<Rightarrow> ustring \<Rightarrow> ustring \<Rightarrow> ustring" where
  "get_role_master_derived_data_tablename U client_name system_name =
     (let client = clean_client_name U client_name;
          system = clean_system_name U system_name
      in ustr ''Z_FUE_'' @ client @ ustr ''_'' @ system @ ustr ''_ROLE_MASTER_DERVI_DATA'')"

definition get_user_data_tablename :: "ucd \<Rightarrow> ustring \<Rightarrow> ustring \<Rightarrow> ustring" where
  "get_user_data_tablename U client_name system_name =
     (let client = clean_client_name U client_name;
          system = clean_system_name U system_name
      in ustr ''Z_FUE_'' @ client @ ustr ''_'' @ system @ ustr ''_USER_DATA'')"

definition get_user_role_data_tablename :: "ucd \<Rightarrow> ustring \<Rightarrow> ustring \<Rightarrow> ustring" where
  "get_user_role_data_tablename U client_name system_name =
     (let client = clean_client_name U client_name;
          system = clean_system_name U system_name
      in ustr ''Z_FUE_'' @ client @ ustr ''_'' @ system @ ustr ''_USER_ROLE_DATA'')"

section \<open>Model classes and their cache\<close>

text \<open>
  A dynamically built model class is determined by its class name, its
  \<open>__tablename__\<close> and the column mixin it inherits from. The module-level dictionary
  \<open>_dynamic_models_cache\<close> maps table names to classes; the functions that read and
  write it take the dictionary and return it.
\<close>

datatype base_class =
    BaseLiceData | BaseAuthData | BaseFioriRoleData
  | RoleMasterDerviData | UserData | UserRoleData

record model_class =
  class_name :: ustring
  tablename :: ustring
  base :: base_class

type_synonym models_cache = "ustring \<rightharpoonup> model_class"

definition create_lice_data_model ::
  "ucd \<Rightarrow> ustring \<Rightarrow> ustring \<Rightarrow> models_cache \<Rightarrow> model_class \<times> models_cache" where
  "create_lice_data_model U client_name system_name cache =
     (let table_name = get_lice_data_tablename U client_name system_name
      in case cache table_name of
           Some m \<Rightarrow> (m, cache)
         | None \<Rightarrow>
             (let m = \<lparr>class_name = ustr ''Z_FUE_'' @ clean_client_name U client_name @ ustr ''_''
                                     @ clean_system_name U system_name @ ustr ''LiceData'',
                       tablename = table_name, base = BaseLiceData\<rparr>
              in (m, cache(table_name \<mapsto> m))))"

definition create_auth_data_model ::
  "ucd \<Rightarrow> ustring \<Rightarrow> ustring \<Rightarrow> models_cache \<Rightarrow> model_class \<times> models_cache" where
  "create_auth_data_model U client_name system_name cache =
     (let table_name = get_auth_data_tablename U client_name system_name
      in case cache table_name of
           Some m \<Rightarrow> (m, cache)
         | None \<Rightarrow>
             (let m = \<lparr>class_name = ustr ''Z_FUE_'' @ clean_client_name U client_name @ ustr ''_''
                                     @ clean_system_name U system_name @ ustr ''AuthData'',
                       tablename = table_name, base = BaseAuthData\<rparr>
              in (m, cache(table_name \<mapsto> m))))"

definition create_role_fiori_data_model ::
  "ucd \<Rightarrow> ustring \<Rightarrow> ustring \<Rightarrow> models_cache \<Rightarrow> model_class \<times> models_cache" where
  "create_role_fiori_data_model U client_name system_name cache =
     (let table_name = get_role_fiori_data_tablename U client_name system_name
      in case cache table_name of
           Some m \<Rightarrow> (m, cache)
         | None \<Rightarrow>
             (let m = \<lparr>class_name = ustr ''Z_FUE_'' @ clean_client_name U client_name @ ustr ''_''
                                     @ clean_system_name U system_name @ ustr ''RoleFioriData'',
                       tablename = table_name, base = BaseFioriRoleData\<rparr>
              in (m, cache(table_name \<mapsto> m))))"

definition create_role_master_derived_data ::
  "ucd \<Rightarrow> ustring \<Rightarrow> ustring \<Rightarrow> models_cache \<Rightarrow> model_class \<times> models_cache" where
  "create_role_master_derived_data U client_name system_name cache =
     (let table_name = get_role_master_derived_data_tablename U client_name system_name
      in case cache table_name of
           Some m \<Rightarrow> (m, cache)
         | None \<Rightarrow>
             (let m = \<lparr>class_name = ustr ''Z_FUE_'' @ clean_client_name U client_name @ ustr ''_''
                                     @ clean_system_name U system_name @ ustr ''MasterDerivedData'',
                       tablename = table_name, base = RoleMasterDerviData\<rparr>
              in (m, cache(table_name \<mapsto> m))))"

definition create_user_data ::
  "ucd \<Rightarrow> ustring \<Rightarrow> ustring \<Rightarrow> models_cache \<Rightarrow> model_class \<times> models_cache" where
  "create_user_data U client_name system_name cache =
     (let table_name = get_user_data_tablename U client_name system_name
      in case cache table_name of
           Some m \<Rightarrow> (m, cache)
         | None \<Rightarrow>
             (let m = \<lparr>class_name = ustr ''Z_FUE_'' @ clean_client_name U client_name @ ustr ''_''
                                     @ clean_system_name U system_name @ ustr ''UserData'',
                       tablename = table_name, base = UserData\<rparr>
              in (m, cache(table_name \<mapsto> m))))"

definition create_user_role_data ::
  "ucd \<Rightarrow> ustring \<Rightarrow> ustring \<Rightarrow> models_cache \<Rightarrow> model_class \<times> models_cache" where
  "create_user_role_data U client_name system_name cache =
     (let table_name = get_user_role_data_tablename U client_name system_name
      in case cache table_name of
           Some m \<Rightarrow> (m, cache)
         | None \<Rightarrow>
             (let m = \<lparr>class_name = ustr ''Z_FUE_'' @ clean_client_name U client_name @ ustr ''_''
                                     @ clean_system_name U system_name @ ustr ''UserRoleData'',
                       tablename = table_name, base = UserRoleData\<rparr>
              in (m, cache(table_name \<mapsto> m))))"

section \<open>Tables and the database session\<close>

text \<open>
  A model instance is the dictionary of keyword arguments it was built from. The state
  threaded through the loaders holds the model cache, the tables that exist (in the order
  of their creation), the committed rows of every table and the rows as the open session
  sees them. \<open>db.query(M).delete()\<close>, \<open>db.add_all\<close>, \<open>db.commit()\<close> and
  \<open>db.rollback()\<close> act on that state. Which database calls raise during a load, and
  with what text, is an input (\<open>faults\<close>). Log lines and \<open>print\<close> output are not
  modelled.
\<close>

type_synonym row = "(string \<times> ustring) list"

record state =
  cache :: models_cache
  tables :: "ustring list"
  stored :: "ustring \<Rightarrow> row list"
  session :: "ustring \<Rightarrow> row list"

record faults =
  create_error :: "ustring option"
  delete_error :: "ustring option"
  commit_error :: "ustring option"

datatype exn = DataLoaderError ustring | DatabaseError ustring

definition has_table :: "state \<Rightarrow> ustring \<Rightarrow> bool" where
  "has_table st t = (t \<in> set (tables st))"

definition ensure_table_exists :: "faults \<Rightarrow> state \<Rightarrow> model_class \<Rightarrow> exn + state" where
  "ensure_table_exists F st m =
     (let table_name = tablename m
      in if \<not> has_table st table_name
         then (case create_error F of
                 Some e \<Rightarrow> Inl (DatabaseError e)
               | None \<Rightarrow> Inr (st\<lparr>tables := tables st @ [table_name]\<rparr>))
         else Inr st)"

definition db_query_delete :: "faults \<Rightarrow> ustring \<Rightarrow> state \<Rightarrow> ustring + state" where
  "db_query_delete F t st =
     (case delete_error F of
        Some e \<Rightarrow> Inl e
      | None \<Rightarrow> Inr (st\<lparr>session := (session st)(t := [])\<rparr>))"

definition db_add_all :: "ustring \<Rightarrow> row list \<Rightarrow> state \<Rightarrow> state" where
  "db_add_all t objs st = st\<lparr>session := (session st)(t := session st t @ objs)\<rparr>"

definition db_commit :: "faults \<Rightarrow> state \<Rightarrow> ustring + state" where
  "db_commit F st =
     (case commit_error F of
        Some e \<Rightarrow> Inl e
      | None \<Rightarrow> Inr (st\<lparr>stored := session st\<rparr>))"

definition db_rollback :: "state \<Rightarrow> state" where
  "db_rollback st = st\<lparr>session := stored st\<rparr>"

record load_result =
  message :: ustring
  table_name :: "ustring option"
  records_loaded :: nat

section \<open>Library calls of the loaders\<close>

text \<open>
  The codecs, \<open>str.splitlines\<close>, \<open>csv.reader\<close> and the XML parser belong to the
  interpreter, not to the repository, and are parameters. A decoder returns the text or
  the message of the \<open>UnicodeDecodeError\<close> it raises. The rows of \<open>csv.reader\<close> are
  produced one by one, and producing one may raise \<open>csv.Error\<close>. The XML parameter
  stands for \<open>ET.parse\<close> followed by \<open>findall('.//asx:values/DOWNLOAD/item')\<close>: it
  yields the message of the \<open>ParseError\<close> raised for a malformed document, or the
  message of another exception the parser raises (a \<open>ValueError\<close> or
  \<open>LookupError\<close> for an encoding it does not support), or the item elements, each as
  the list of its children (tag, text) in document order. Latin-1 is written out: every
  byte is the code point of the same value.
\<close>

datatype csv_item = Row "ustring list" | CsvError ustring

type_synonym xml_item = "(ustring \<times> ustring) list"

datatype xml_outcome = XmlParseError ustring | XmlOtherError ustring | XmlItems "xml_item list"

record pylib =
  decode_utf8_sig :: "byte list \<Rightarrow> ustring + ustring"
  decode_cp1252 :: "byte list \<Rightarrow> ustring + ustring"
  splitlines :: "ustring \<Rightarrow> ustring list"
  csv_reader :: "ustring list \<Rightarrow> csv_item list"
  et_findall_items :: "byte list \<Rightarrow> xml_outcome"

definition decode_latin1 :: "byte list \<Rightarrow> ustring + ustring" where
  "decode_latin1 bs = Inr (map unat bs)"

definition findtext :: "xml_item \<Rightarrow> ustring \<Rightarrow> ustring \<Rightarrow> ustring" where
  \<comment> \<open>\<open>item.findtext(tag, default)\<close>: the text of the first child with that tag\<close>
  "findtext item tag dflt = (case map_of item tag of Some t \<Rightarrow> t | None \<Rightarrow> dflt)"

definition findtext_opt :: "xml_item \<Rightarrow> ustring \<Rightarrow> ustring option" where
  \<comment> \<open>\<open>item.findtext(tag)\<close>, which is \<open>None\<close> when there is no such child\<close>
  "findtext_opt item tag = map_of item tag"

definition dict_get :: "row \<Rightarrow> string \<Rightarrow> ustring \<Rightarrow> ustring" where
  \<comment> \<open>\<open>d.get(key, default)\<close>\<close>
  "dict_get d key dflt = (case map_of d key of Some v \<Rightarrow> v | None \<Rightarrow> dflt)"

section \<open>The XML loader (\<open>load_lice_data_from_xml_upload\<close>)\<close>

type_synonym roles_info = "ustring \<rightharpoonup> row"

definition lice_item :: "xml_item \<Rightarrow> roles_info \<times> row list \<Rightarrow> roles_info \<times> row list" where
  \<comment> \<open>the body of \<open>for item in items\<close>, on \<open>roles_info\<close> and \<open>objects_to_load\<close>\<close>
  "lice_item item acc =
     (let roles_info = fst acc;
          objects_to_load = snd acc;
          agr_name = findtext item (ustr ''AGR_NAME'') [];
          auth_obj = findtext item (ustr ''OBJECT'') []
      in if auth_obj = []
         then (let agr_classif_check = findtext_opt item (ustr ''AGR_CLASSIF'')
               in if agr_name \<noteq> [] \<and> agr_classif_check \<noteq> None
                  then (roles_info(agr_name \<mapsto>
                          [(''AGR_TEXT'', findtext item (ustr ''AGR_TEXT'') []),
                           (''AGR_CLASSIF'', findtext item (ustr ''AGR_CLASSIF'') []),
                           (''AGR_RATIO'', findtext item (ustr ''AGR_RATIO'') []),
                           (''AGR_OBJECTS'', findtext item (ustr ''AGR_OBJECTS'') (ustr ''0'')),
                           (''AGR_USERS'', findtext item (ustr ''AGR_USERS'') (ustr ''0''))]),
                        objects_to_load)
                  else (roles_info, objects_to_load))
         else (let role_specific_info = (case roles_info agr_name of Some d \<Rightarrow> d | None \<Rightarrow> []);
                   lice_data_obj =
                     [(''AGR_NAME'', agr_name), (''OBJECT'', auth_obj),
                      (''TTEXT'', findtext item (ustr ''TTEXT'') []),
                      (''FIELD'', findtext item (ustr ''FIELD'') []),
                      (''LOW'', findtext item (ustr ''LOW'') []),
                      (''HIGH'', findtext item (ustr ''HIGH'') []),
                      (''CLASSIF_S4'', findtext item (ustr ''CLASSIF_S4'') []),
                      (''AGR_TEXT'', dict_get role_specific_info ''AGR_TEXT''
                                       (findtext item (ustr ''AGR_TEXT'') [])),
                      (''AGR_CLASSIF'', dict_get role_specific_info ''AGR_CLASSIF''
                                          (findtext item (ustr ''AGR_CLASSIF'') [])),
                      (''AGR_RATIO'', dict_get role_specific_info ''AGR_RATIO''
                                        (findtext item (ustr ''AGR_RATIO'') [])),
                      (''AGR_OBJECTS'', dict_get role_specific_info ''AGR_OBJECTS''
                                          (findtext item (ustr ''AGR_OBJECTS'') (ustr ''0''))),
                      (''AGR_USERS'', dict_get role_specific_info ''AGR_USERS''
                                        (findtext item (ustr ''AGR_USERS'') (ustr ''0'')))]
               in (roles_info, objects_to_load @ [lice_data_obj])))"

fun lice_items :: "xml_item list \<Rightarrow> roles_info \<times> row list \<Rightarrow> roles_info \<times> row list" where
  "lice_items [] acc = acc"
| "lice_items (item # items) acc = lice_items items (lice_item item acc)"

text \<open>
  What the second \<open>try\<close> block computes before \<open>db.add_all\<close>: the objects to load,
  or the message of the \<open>DataLoaderError\<close> that its handlers raise:
  \<open>except ET.ParseError\<close> for a parse error, \<open>except Exception\<close> for every other
  exception, among them the two \<open>DataLoaderError\<close>s raised inside the block.
\<close>

definition parse_lice_xml :: "pylib \<Rightarrow> byte list \<Rightarrow> ustring + row list" where
  "parse_lice_xml L xml_content =
     (case et_findall_items L xml_content of
        XmlParseError e \<Rightarrow> Inl (ustr ''XML ParseError: '' @ e)
      | XmlOtherError e \<Rightarrow> Inl (ustr ''Failed loading XML data: '' @ e)
      | XmlItems items \<Rightarrow>
          if items = []
          then Inl (ustr ''Failed loading XML data: '' @ ustr ''No <item> elements found in XML.'')
          else (let objects_to_load = snd (lice_items items (Map.empty, []))
                in if objects_to_load = []
                   then Inl (ustr ''Failed loading XML data: '' @ ustr ''No valid object data found.'')
                   else Inr objects_to_load))"

definition load_lice_data_from_xml_upload ::
  "ucd \<Rightarrow> pylib \<Rightarrow> faults \<Rightarrow> byte list option \<Rightarrow> ustring \<Rightarrow> ustring \<Rightarrow> state
     \<Rightarrow> (exn + load_result) \<times> state" where
  "load_lice_data_from_xml_upload U L F xml_file client_name system_name st =
     (case xml_file of
        None \<Rightarrow>
          (Inr \<lparr>message = ustr ''No XML file provided, skipping load.'',
                table_name = None, records_loaded = 0\<rparr>, st)
      | Some xml_content \<Rightarrow>
          (let created = create_lice_data_model U client_name system_name (cache st);
               DynamicLiceModel = fst created;
               st1 = st\<lparr>cache := snd created\<rparr>;
               tname = tablename DynamicLiceModel
           in case ensure_table_exists F st1 DynamicLiceModel of
                Inl e \<Rightarrow> (Inl e, st1)
              | Inr st2 \<Rightarrow>
                  (case db_query_delete F tname st2 of
                     Inl e \<Rightarrow>
                       (Inl (DataLoaderError
                               (ustr ''Failed to truncate table '' @ tname @ ustr '': '' @ e)),
                        db_rollback st2)
                   | Inr st3 \<Rightarrow>
                       (case parse_lice_xml L xml_content of
                          Inl msg \<Rightarrow> (Inl (DataLoaderError msg), db_rollback st3)
                        | Inr objects_to_load \<Rightarrow>
                            (let st4 = db_add_all tname objects_to_load st3
                             in case db_commit F st4 of
                                  Inl e \<Rightarrow>
                                    (Inl (DataLoaderError (ustr ''Failed loading XML data: '' @ e)),
                                     db_rollback st4)
                                | Inr st5 \<Rightarrow>
                                    (Inr \<lparr>message = ustr ''Successfully loaded ''
                                                      @ str_nat (length objects_to_load)
                                                      @ ustr '' records into '' @ tname,
                                          table_name = Some tname,
                                          records_loaded = length objects_to_load\<rparr>,
                                     st5))))))"

section \<open>The CSV loaders\<close>

definition decode_csv_content :: "pylib \<Rightarrow> byte list \<Rightarrow> ustring + ustring" where
  \<comment> \<open>the nested \<open>try\<close> around \<open>decode\<close>: utf-8-sig, then latin-1, then cp1252\<close>
  "decode_csv_content L csv_content =
     (case decode_utf8_sig L csv_content of
        Inr csv_text \<Rightarrow> Inr csv_text
      | Inl e1 \<Rightarrow>
          (case decode_latin1 csv_content of
             Inr csv_text \<Rightarrow> Inr csv_text
           | Inl e2 \<Rightarrow> decode_cp1252 L csv_content))"

text \<open>
  The dictionary comprehension \<open>{model_field: row[csv_index] for ...}\<close> over the
  field map, in its order; \<open>None\<close> is the \<open>IndexError\<close> of the first index that is
  out of range.
\<close>

fun obj_data :: "(string \<times> nat) list \<Rightarrow> ustring list \<Rightarrow> row option" where
  "obj_data [] row = Some []"
| "obj_data ((model_field, csv_index) # field_map) row =
     (if csv_index < length row
      then (case obj_data field_map row of
              None \<Rightarrow> None
            | Some d \<Rightarrow> Some ((model_field, row ! csv_index) # d))
      else None)"

text \<open>
  \<open>for i, row in enumerate(csv_reader)\<close>, started at index \<open>i\<close> with the objects
  collected so far. A \<open>csv.Error\<close> leaves the loop with its own message. The handler
  \<open>except Exception as row_e\<close> has nothing to catch, since building a model instance from
  its own column names does not raise.
\<close>

fun csv_rows :: "(string \<times> nat) list \<Rightarrow> nat \<Rightarrow> csv_item list \<Rightarrow> row list \<Rightarrow> ustring + row list" where
  "csv_rows field_map i [] objects_to_load = Inr objects_to_load"
| "csv_rows field_map i (CsvError e # rest) objects_to_load = Inl e"
| "csv_rows field_map i (Row row # rest) objects_to_load =
     (case obj_data field_map row of
        None \<Rightarrow> Inl (ustr ''Error processing row '' @ str_nat (i + 2) @ ustr '': Not enough columns.'')
      | Some d \<Rightarrow> csv_rows field_map (i + 1) rest (objects_to_load @ [d]))"

text \<open>
  What the second \<open>try\<close> block computes before \<open>db.add_all\<close>: the objects to load or
  the text \<open>str(e)\<close> of the exception that reaches \<open>except Exception as e\<close>.
  \<open>next(csv_reader)\<close> on an exhausted reader raises \<open>StopIteration\<close>, whose text is
  empty.
\<close>

definition parse_csv :: "pylib \<Rightarrow> (string \<times> nat) list \<Rightarrow> byte list \<Rightarrow> ustring + row list" where
  "parse_csv L field_map csv_content =
     (case decode_csv_content L csv_content of
        Inl e \<Rightarrow> Inl e
      | Inr csv_text \<Rightarrow>
          (case csv_reader L (splitlines L csv_text) of
             [] \<Rightarrow> Inl []
           | CsvError e # rest \<Rightarrow> Inl e
           | Row headers # rest \<Rightarrow> csv_rows field_map 0 rest []))"

text \<open>
  The five CSV loaders have the same text up to the model constructor and the field map;
  \<open>load_csv_upload\<close> is that text, and each loader instantiates it.
\<close>

definition load_csv_upload ::
  "(ucd \<Rightarrow> ustring \<Rightarrow> ustring \<Rightarrow> models_cache \<Rightarrow> model_class \<times> models_cache)
     \<Rightarrow> (string \<times> nat) list
     \<Rightarrow> ucd \<Rightarrow> pylib \<Rightarrow> faults \<Rightarrow> byte list option \<Rightarrow> ustring \<Rightarrow> ustring \<Rightarrow> state
     \<Rightarrow> (exn + load_result) \<times> state" where
  "load_csv_upload create_model field_map U L F csv_file client_name system_name st =
     (case csv_file of
        None \<Rightarrow>
          (Inr \<lparr>message = ustr ''No CSV file provided, skipping load.'',
                table_name = None, records_loaded = 0\<rparr>, st)
      | Some csv_content \<Rightarrow>
          (let created = create_model U client_name system_name (cache st);
               DynamicModel = fst created;
               st1 = st\<lparr>cache := snd created\<rparr>;
               tname = tablename DynamicModel
           in case ensure_table_exists F st1 DynamicModel of
                Inl e \<Rightarrow> (Inl e, st1)
              | Inr st2 \<Rightarrow>
                  (case db_query_delete F tname st2 of
                     Inl e \<Rightarrow>
                       (Inl (DataLoaderError
                               (ustr ''Failed to truncate table '' @ tname @ ustr '': '' @ e)),
                        db_rollback st2)
                   | Inr st3 \<Rightarrow>
                       (case parse_csv L field_map csv_content of
                          Inl e \<Rightarrow>
                            (Inl (DataLoaderError (ustr ''Failed loading CSV data: '' @ e)),
                             db_rollback st3)
                        | Inr objects_to_load \<Rightarrow>
                            (let st4 = db_add_all tname objects_to_load st3
                             in case db_commit F st4 of
                                  Inl e \<Rightarrow>
                                    (Inl (DataLoaderError (ustr ''Failed loading CSV data: '' @ e)),
                                     db_rollback st4)
                                | Inr st5 \<Rightarrow>
                                    (Inr \<lparr>message = ustr ''Successfully loaded ''
                                                      @ str_nat (length objects_to_load)
                                                      @ ustr '' records into '' @ tname,
                                          table_name = Some tname,
                                          records_loaded = length objects_to_load\<rparr>,
                                     st5))))))"

definition auth_field_map :: "(string \<times> nat) list" where
  "auth_field_map =
     [(''AGR_NAME'', 0), (''OBJECT'', 1), (''AUTH_NAME'', 2), (''FIELD_NAME'', 3),
      (''AUTH_VALUE_LOW'', 4), (''AUTH_VALUE_HIGH'', 5)]"

definition role_fiori_field_map :: "(string \<times> nat) list" where
  "role_fiori_field_map =
     [(''ROLE'', 0), (''ROLE_DESCRIPTION'', 1), (''TILE_TARGET_MAPPING_MATCHING_TEXT'', 2),
      (''SEMANTIC_OBJECT'', 3), (''ACTION'', 4), (''TITLE_SUBTITLE_INFORMATION'', 5),
      (''APPLICATION_TYPE'', 6), (''APPLICATION_RESOURCES'', 7), (''SAP_FIORI_ID'', 8),
      (''APPLICATION_COMPONENT_ID'', 9), (''ODATA_SERVICE_NAME'', 10), (''CATALOG_ID'', 11),
      (''CATALOG_TITLE'', 12)]"

definition master_derived_field_map :: "(string \<times> nat) list" where
  "master_derived_field_map = [(''DERIVED_ROLE'', 0), (''MASTER_ROLE'', 1)]"

definition user_role_field_map :: "(string \<times> nat) list" where
  "user_role_field_map = [(''ROLE'', 0), (''USER_NAME'', 1)]"

definition user_field_map :: "(string \<times> nat) list" where
  "user_field_map =
     [(''USER'', 0), (''FULL_NAME'', 1), (''ID'', 2), (''CURRENT_CLASSIFICATION'', 3),
      (''TARGET_CLASSIFICATION'', 4), (''RATIO'', 5), (''REF_USER'', 6), (''USER_GROUP'', 7),
      (''LAST_LOGON'', 8), (''COUNT'', 9)]"

definition load_auth_data_from_csv_upload ::
  "ucd \<Rightarrow> pylib \<Rightarrow> faults \<Rightarrow> byte list option \<Rightarrow> ustring \<Rightarrow> ustring \<Rightarrow> state
     \<Rightarrow> (exn + load_result) \<times> state" where
  "load_auth_data_from_csv_upload = load_csv_upload create_auth_data_model auth_field_map"

definition load_role_fiori_map_data_from_csv_upload ::
  "ucd \<Rightarrow> pylib \<Rightarrow> faults \<Rightarrow> byte list option \<Rightarrow> ustring \<Rightarrow> ustring \<Rightarrow> state
     \<Rightarrow> (exn + load_result) \<times> state" where
  "load_role_fiori_map_data_from_csv_upload =
     load_csv_upload create_role_fiori_data_model role_fiori_field_map"

definition load_master_derived_role_data_from_csv_upload ::
  "ucd \<Rightarrow> pylib \<Rightarrow> faults \<Rightarrow> byte list option \<Rightarrow> ustring \<Rightarrow> ustring \<Rightarrow> state
     \<Rightarrow> (exn + load_result) \<times> state" where
  "load_master_derived_role_data_from_csv_upload =
     load_csv_upload create_role_master_derived_data master_derived_field_map"

definition load_user_role_map_data_from_csv_upload ::
  "ucd \<Rightarrow> pylib \<Rightarrow> faults \<Rightarrow> byte list option \<Rightarrow> ustring \<Rightarrow> ustring \<Rightarrow> state
     \<Rightarrow> (exn + load_result) \<times> state" where
  "load_user_role_map_data_from_csv_upload =
     load_csv_upload create_user_role_data user_role_field_map"

definition load_user_data_from_csv_upload ::
  "ucd \<Rightarrow> pylib \<Rightarrow> faults \<Rightarrow> byte list option \<Rightarrow> ustring \<Rightarrow> ustring \<Rightarrow> state
     \<Rightarrow> (exn + load_result) \<times> state" where
  "load_user_data_from_csv_upload = load_csv_upload create_user_data user_field_map"

text \<open>
  The CSV loaders, each with its model constructor and its field map; the theorems about
  every CSV loader range over this list.
\<close>

type_synonym loader =
  "ucd \<Rightarrow> pylib \<Rightarrow> faults \<Rightarrow> byte list option \<Rightarrow> ustring \<Rightarrow> ustring \<Rightarrow> state
     \<Rightarrow> (exn + load_result) \<times> state"

definition csv_loaders ::
  "(loader \<times> (ucd \<Rightarrow> ustring \<Rightarrow> ustring \<Rightarrow> models_cache \<Rightarrow> model_class \<times> models_cache)
      \<times> (string \<times> nat) list) list" where
  "csv_loaders =
     [(load_auth_data_from_csv_upload, create_auth_data_model, auth_field_map),
      (load_role_fiori_map_data_from_csv_upload, create_role_fiori_data_model, role_fiori_field_map),
      (load_master_derived_role_data_from_csv_upload, create_role_master_derived_data,
         master_derived_field_map),
      (load_user_role_map_data_from_csv_upload, create_user_role_data, user_role_field_map),
      (load_user_data_from_csv_upload, create_user_data, user_field_map)]"

text \<open>
  The parse stage of a CSV loader with the message its handler raises, and the six loaders,
  each with its model constructor, its parse stage (the objects to load, or the message of
  the \<open>DataLoaderError\<close> raised) and the prefix its handler puts before the text of a
  failed commit.
\<close>

definition csv_stage :: "(string \<times> nat) list \<Rightarrow> pylib \<Rightarrow> byte list \<Rightarrow> ustring + row list" where
  "csv_stage field_map L csv_content =
     (case parse_csv L field_map csv_content of
        Inl e \<Rightarrow> Inl (ustr ''Failed loading CSV data: '' @ e)
      | Inr objects_to_load \<Rightarrow> Inr objects_to_load)"

definition loader_stages ::
  "(loader \<times> (ucd \<Rightarrow> ustring \<Rightarrow> ustring \<Rightarrow> models_cache \<Rightarrow> model_class \<times> models_cache)
      \<times> (pylib \<Rightarrow> byte list \<Rightarrow> ustring + row list) \<times> ustring) list" where
  "loader_stages =
     [(load_lice_data_from_xml_upload, create_lice_data_model, parse_lice_xml,
         ustr ''Failed loading XML data: ''),
      (load_auth_data_from_csv_upload, create_auth_data_model, csv_stage auth_field_map,
         ustr ''Failed loading CSV data: ''),
      (load_role_fiori_map_data_from_csv_upload, create_role_fiori_data_model,
         csv_stage role_fiori_field_map, ustr ''Failed loading CSV data: ''),
      (load_master_derived_role_data_from_csv_upload, create_role_master_derived_data,
         csv_stage master_derived_field_map, ustr ''Failed loading CSV data: ''),
      (load_user_role_map_data_from_csv_upload, create_user_role_data,
         csv_stage user_role_field_map, ustr ''Failed loading CSV data: ''),
      (load_user_data_from_csv_upload, create_user_data, csv_stage user_field_map,
         ustr ''Failed loading CSV data: '')]"

text \<open>
  The six model constructors, each with the function that derives its table name, the
  suffix of its class name and the mixin it inherits from.
\<close>

definition model_constructors ::
  "((ucd \<Rightarrow> ustring \<Rightarrow> ustring \<Rightarrow> models_cache \<Rightarrow> model_class \<times> models_cache)
      \<times> (ucd \<Rightarrow> ustring \<Rightarrow> ustring \<Rightarrow> ustring) \<times> string \<times> base_class) list" where
  "model_constructors =
     [(create_lice_data_model, get_lice_data_tablename, ''LiceData'', BaseLiceData),
      (create_auth_data_model, get_auth_data_tablename, ''AuthData'', BaseAuthData),
      (create_role_fiori_data_model, get_role_fiori_data_tablename, ''RoleFioriData'',
         BaseFioriRoleData),
      (create_role_master_derived_data, get_role_master_derived_data_tablename,
         ''MasterDerivedData'', RoleMasterDerviData),
      (create_user_data, get_user_data_tablename, ''UserData'', UserData),
      (create_user_role_data, get_user_role_data_tablename, ''UserRoleData'', UserRoleData)]"

text \<open>
  The two kinds of item the XML loop distinguishes: a detail row has a non-empty
  \<open>OBJECT\<close>; a role header for role \<open>r\<close> is an item on which the loop stores
  \<open>roles_info[r]\<close>.
\<close>

definition detail_row :: "xml_item \<Rightarrow> bool" where
  "detail_row item = (findtext item (ustr ''OBJECT'') [] \<noteq> [])"

definition role_header :: "ustring \<Rightarrow> xml_item \<Rightarrow> bool" where
  "role_header r item =
     (findtext item (ustr ''OBJECT'') [] = [] \<and> findtext item (ustr ''AGR_NAME'') [] = r
      \<and> r \<noteq> [] \<and> findtext_opt item (ustr ''AGR_CLASSIF'') \<noteq> None)"

section \<open>The specification's wording of normalisation\<close>

text \<open>
  The specification describes normalisation as: upper-case the name, replace whitespace by
  an underscore, strip every remaining character that is neither alphanumeric nor an
  underscore. \<open>normalize_spec\<close> is that description, with the whitespace characters of
  \<open>str.isspace\<close>; it is compared with \<open>clean_client_name\<close> below.
\<close>

definition is_space :: "nat \<Rightarrow> bool" where
  "is_space c =
     ((9 \<le> c \<and> c \<le> 13) \<or> (28 \<le> c \<and> c \<le> 32) \<or> c = 133 \<or> c = 160 \<or> c = 5760
      \<or> (8192 \<le> c \<and> c \<le> 8202) \<or> c = 8232 \<or> c = 8233 \<or> c = 8239 \<or> c = 8287
      \<or> c = 12288)"

definition normalize_spec :: "ucd \<Rightarrow> ustring \<Rightarrow> ustring" where
  "normalize_spec U name =
     filter (is_word U) (map (\<lambda>c. if is_space c then 95 else c) (str_upper U name))"

section \<open>Concrete library values for evaluating examples\<close>

text \<open>
  \<open>ucd_excerpt\<close> holds the entries of the Unicode tables for U+01F0 (small j with
  caron): it is alphanumeric, and its upper case is the letter J followed by U+030C
  (combining caron), which is not alphanumeric. No other non-ASCII code point occurs in
  the examples.
\<close>

definition ucd_excerpt :: ucd where
  "ucd_excerpt = \<lparr>ucd_alnum = (\<lambda>c. c = 496),
                  ucd_upper = (\<lambda>c. if c = 496 then [74, 780] else [c])\<rparr>"

text \<open>
  \<open>plain_lib\<close> agrees with the interpreter's library on plain ASCII input: bytes below
  128, lines ended by a line feed, fields separated by commas and free of quotes. Its XML
  parser is the one for an empty document; \<open>xml_lib items\<close> is a library whose XML
  parser finds the given item elements.
\<close>

fun split_on :: "nat \<Rightarrow> ustring \<Rightarrow> ustring \<Rightarrow> ustring list" where
  "split_on sep [] cur = [cur]"
| "split_on sep (c # cs) cur =
     (if c = sep then cur # split_on sep cs [] else split_on sep cs (cur @ [c]))"

fun plain_splitlines :: "ustring \<Rightarrow> ustring \<Rightarrow> ustring list" where
  "plain_splitlines [] cur = (if cur = [] then [] else [cur])"
| "plain_splitlines (c # cs) cur =
     (if c = 10 then cur # plain_splitlines cs [] else plain_splitlines cs (cur @ [c]))"

definition plain_lib :: pylib where
  "plain_lib =
     \<lparr>decode_utf8_sig = (\<lambda>bs. if list_all (\<lambda>b. b < 128) bs then Inr (map unat bs)
                               else Inl (ustr ''invalid start byte'')),
      decode_cp1252 = (\<lambda>bs. Inr (map unat bs)),
      splitlines = (\<lambda>s. plain_splitlines s []),
      csv_reader = map (\<lambda>line. Row (if line = [] then [] else split_on 44 line [])),
      et_findall_items = (\<lambda>bs. XmlParseError (ustr ''no element found''))\<rparr>"

definition xml_lib :: "xml_item list \<Rightarrow> pylib" where
  "xml_lib items = plain_lib\<lparr>et_findall_items := (\<lambda>bs. XmlItems items)\<rparr>"

definition bstr :: "string \<Rightarrow> byte list" where
  \<comment> \<open>the bytes of an ASCII literal\<close>
  "bstr s = map of_char s"

definition stored_state :: "ustring \<Rightarrow> row list \<Rightarrow> state" where
  \<comment> \<open>a database with one table holding the given rows, and an empty model cache\<close>
  "stored_state t rows =
     \<lparr>cache = Map.empty, tables = [t],
      stored = (\<lambda>t'. if t' = t then rows else []),
      session = (\<lambda>t'. if t' = t then rows else [])\<rparr>"

definition no_faults :: faults where
  "no_faults = \<lparr>create_error = None, delete_error = None, commit_error = None\<rparr>"

definition empty_state :: state where
  "empty_state = \<lparr>cache = Map.empty, tables = [], stored = (\<lambda>t. []), session = (\<lambda>t. [])\<rparr>"

section \<open>Normalisation of client and system names\<close>

lemma filter_dropWhile_not: "filter P (dropWhile (\<lambda>x. \<not> P x) xs) = filter P xs"
  by (induction xs) auto

lemma re_sub_nonword_filter: "re_sub_nonword U s = filter (is_word U) s"
proof (induction U s rule: re_sub_nonword.induct)
  case (1 U)
  show ?case by simp
next
  case (2 U c cs)
  show ?case
  proof (cases "is_word U c")
    case True
    with 2 show ?thesis by simp
  next
    case False
    with 2 show ?thesis by (simp add: filter_dropWhile_not)
  qed
qed

lemma clean_system_name_eq: "clean_system_name U s = clean_client_name U s"
  by (simp add: clean_system_name_def clean_client_name_def)

lemmas name_defs = clean_client_name_def clean_system_name_def str_upper_def replace_space_def
  ustr_def is_word_def upper_cp_def

text \<open>
  C6, as the code has it. Both cleaning functions replace every space (U+0020) by an
  underscore, then delete every character that is not a word character (alphanumeric or
  underscore), then upper-case what is left. They are functions of their argument alone.
  Whitespace other than the space is deleted, not replaced.
\<close>

theorem clean_name_characterisation:
  "clean_client_name U s =
     concat (map (upper_cp U) (filter (is_word U) (map (\<lambda>c. if c = 32 then 95 else c) s)))
   \<and> clean_system_name U s =
     concat (map (upper_cp U) (filter (is_word U) (map (\<lambda>c. if c = 32 then 95 else c) s)))"
  by (simp add: clean_client_name_def clean_system_name_def str_upper_def replace_space_def
      re_sub_nonword_filter)

text \<open>
  C6 as stated fails on a tab: for the name A, tab, B the code returns \<open>AB\<close>, while
  replacing whitespace by an underscore gives \<open>A_B\<close>.
\<close>

theorem clean_name_tab_counterexample:
  "clean_client_name ucd_excerpt [65, 9, 66] = [65, 66]
   \<and> normalize_spec ucd_excerpt [65, 9, 66] = [65, 95, 66]
   \<and> clean_client_name ucd_excerpt [65, 9, 66] \<noteq> normalize_spec ucd_excerpt [65, 9, 66]"
  by (simp add: clean_client_name_def str_upper_def replace_space_def normalize_spec_def
      is_word_def upper_cp_def is_space_def)

lemma clean_fixed:
  assumes "\<forall>d\<in>set y. is_word U d \<and> upper_cp U d = [d]"
  shows "clean_client_name U y = y"
proof -
  have ns: "\<forall>d\<in>set y. d \<noteq> 32"
    using assms by (auto simp: is_word_def)
  have r: "replace_space y = y"
    unfolding replace_space_def using ns by (induction y) auto
  have f: "filter (is_word U) y = y"
    using assms by (induction y) auto
  have u: "concat (map (upper_cp U) y) = y"
    using assms by (induction y) auto
  show ?thesis
    by (simp add: clean_client_name_def str_upper_def re_sub_nonword_filter r f u)
qed

lemma set_clean:
  "set (clean_client_name U x) =
     (\<Union>c\<in>{c \<in> set (replace_space x). is_word U c}. set (upper_cp U c))"
  by (auto simp: clean_client_name_def str_upper_def re_sub_nonword_filter)

lemma clean_idempotent_if_stable:
  assumes "\<forall>c\<in>set x. is_word U c \<longrightarrow>
             (\<forall>d\<in>set (upper_cp U c). is_word U d \<and> upper_cp U d = [d])"
  shows "clean_client_name U (clean_client_name U x) = clean_client_name U x"
proof (rule clean_fixed)
  show "\<forall>d\<in>set (clean_client_name U x). is_word U d \<and> upper_cp U d = [d]"
  proof
    fix d assume "d \<in> set (clean_client_name U x)"
    then obtain c where c: "c \<in> set (replace_space x)" "is_word U c" "d \<in> set (upper_cp U c)"
      by (auto simp: set_clean)
    show "is_word U d \<and> upper_cp U d = [d]"
    proof (cases "c \<in> set x")
      case True
      with assms c show ?thesis by blast
    next
      case False
      with c(1) have "c = 95" by (auto simp: replace_space_def split: if_splits)
      with c(3) show ?thesis by (simp add: upper_cp_def is_word_def)
    qed
  qed
qed

lemma ascii_upper_stable:
  "c < 128 \<Longrightarrow> is_word U c \<Longrightarrow> d \<in> set (upper_cp U c) \<Longrightarrow> is_word U d \<and> upper_cp U d = [d]"
  by (auto simp: is_word_def upper_cp_def split: if_splits)

text \<open>
  C8, as the code has it. Cleaning is idempotent on every string in which upper-casing a
  word character yields only word characters that upper-casing leaves alone; every ASCII
  string is one. The same holds for \<open>clean_system_name\<close>.
\<close>

theorem clean_name_idempotent:
  "((\<forall>c\<in>set x. c < 128) \<longrightarrow>
       clean_client_name U (clean_client_name U x) = clean_client_name U x
     \<and> clean_system_name U (clean_system_name U x) = clean_system_name U x)
   \<and> ((\<forall>c\<in>set y. is_word U c \<longrightarrow>
          (\<forall>d\<in>set (upper_cp U c). is_word U d \<and> upper_cp U d = [d])) \<longrightarrow>
       clean_client_name U (clean_client_name U y) = clean_client_name U y
     \<and> clean_system_name U (clean_system_name U y) = clean_system_name U y)"
proof (intro conjI impI)
  assume a: "\<forall>c\<in>set x. c < 128"
  have st: "\<forall>c\<in>set x. is_word U c \<longrightarrow>
              (\<forall>d\<in>set (upper_cp U c). is_word U d \<and> upper_cp U d = [d])"
    using a ascii_upper_stable by blast
  show "clean_client_name U (clean_client_name U x) = clean_client_name U x"
    by (rule clean_idempotent_if_stable [OF st])
  then show "clean_system_name U (clean_system_name U x) = clean_system_name U x"
    by (simp add: clean_system_name_eq)
next
  assume st: "\<forall>c\<in>set y. is_word U c \<longrightarrow>
                (\<forall>d\<in>set (upper_cp U c). is_word U d \<and> upper_cp U d = [d])"
  show "clean_client_name U (clean_client_name U y) = clean_client_name U y"
    by (rule clean_idempotent_if_stable [OF st])
  then show "clean_system_name U (clean_system_name U y) = clean_system_name U y"
    by (simp add: clean_system_name_eq)
qed

theorem clean_name_idempotent_witness:
  "list_all (\<lambda>c. c < 128) (ustr ''Acme Corp.'')
   \<and> list_all (\<lambda>c. is_word ucd_excerpt c \<longrightarrow>
                  list_all (\<lambda>d. is_word ucd_excerpt d \<and> upper_cp ucd_excerpt d = [d])
                    (upper_cp ucd_excerpt c))
         (ustr ''Acme Corp.'')
   \<and> clean_client_name ucd_excerpt (ustr ''Acme Corp.'') = ustr ''ACME_CORP''
   \<and> clean_client_name ucd_excerpt (clean_client_name ucd_excerpt (ustr ''Acme Corp.''))
       = clean_client_name ucd_excerpt (ustr ''Acme Corp.'')
   \<and> clean_system_name ucd_excerpt (clean_system_name ucd_excerpt (ustr ''Acme Corp.''))
       = clean_system_name ucd_excerpt (ustr ''Acme Corp.'')"
proof -
  have h1: "\<forall>c\<in>set (ustr ''Acme Corp.''). c < 128"
    by (simp add: ustr_def)
  have h2: "\<forall>c\<in>set (ustr ''Acme Corp.''). is_word ucd_excerpt c \<longrightarrow>
          (\<forall>d\<in>set (upper_cp ucd_excerpt c). is_word ucd_excerpt d \<and> upper_cp ucd_excerpt d = [d])"
    by (simp add: ustr_def is_word_def upper_cp_def)
  have v: "clean_client_name ucd_excerpt (ustr ''Acme Corp.'') = ustr ''ACME_CORP''"
    by (simp add: name_defs)
  show ?thesis
    using h1 h2 v clean_name_idempotent [of "ustr ''Acme Corp.''" ucd_excerpt "ustr ''Acme Corp.''"]
    by (simp add: list_all_iff)
qed

text \<open>
  C8 as stated fails beyond ASCII: U+01F0 is a word character, its upper case is J followed
  by the combining caron U+030C, and a second cleaning deletes the caron.
\<close>

theorem clean_name_not_idempotent_counterexample:
  "clean_client_name ucd_excerpt [496] = [74, 780]
   \<and> clean_client_name ucd_excerpt (clean_client_name ucd_excerpt [496]) = [74]
   \<and> clean_client_name ucd_excerpt (clean_client_name ucd_excerpt [496])
       \<noteq> clean_client_name ucd_excerpt [496]"
  by (simp add: clean_client_name_def str_upper_def replace_space_def
      is_word_def upper_cp_def ucd_excerpt_def)

section \<open>The model cache and table provisioning\<close>

lemma create_lice_data_model_again:
  "get_lice_data_tablename U c2 s2 = get_lice_data_tablename U c1 s1 \<Longrightarrow>
   create_lice_data_model U c2 s2 (snd (create_lice_data_model U c1 s1 mc))
     = create_lice_data_model U c1 s1 mc"
  by (simp add: create_lice_data_model_def Let_def split: option.splits)

lemma create_auth_data_model_again:
  "get_auth_data_tablename U c2 s2 = get_auth_data_tablename U c1 s1 \<Longrightarrow>
   create_auth_data_model U c2 s2 (snd (create_auth_data_model U c1 s1 mc))
     = create_auth_data_model U c1 s1 mc"
  by (simp add: create_auth_data_model_def Let_def split: option.splits)

lemma create_role_fiori_data_model_again:
  "get_role_fiori_data_tablename U c2 s2 = get_role_fiori_data_tablename U c1 s1 \<Longrightarrow>
   create_role_fiori_data_model U c2 s2 (snd (create_role_fiori_data_model U c1 s1 mc))
     = create_role_fiori_data_model U c1 s1 mc"
  by (simp add: create_role_fiori_data_model_def Let_def split: option.splits)

lemma create_role_master_derived_data_again:
  "get_role_master_derived_data_tablename U c2 s2 = get_role_master_derived_data_tablename U c1 s1 \<Longrightarrow>
   create_role_master_derived_data U c2 s2 (snd (create_role_master_derived_data U c1 s1 mc))
     = create_role_master_derived_data U c1 s1 mc"
  by (simp add: create_role_master_derived_data_def Let_def split: option.splits)

lemma create_user_data_again:
  "get_user_data_tablename U c2 s2 = get_user_data_tablename U c1 s1 \<Longrightarrow>
   create_user_data U c2 s2 (snd (create_user_data U c1 s1 mc))
     = create_user_data U c1 s1 mc"
  by (simp add: create_user_data_def Let_def split: option.splits)

lemma create_user_role_data_again:
  "get_user_role_data_tablename U c2 s2 = get_user_role_data_tablename U c1 s1 \<Longrightarrow>
   create_user_role_data U c2 s2 (snd (create_user_role_data U c1 s1 mc))
     = create_user_role_data U c1 s1 mc"
  by (simp add: create_user_role_data_def Let_def split: option.splits)

lemma ensure_table_exists_has:
  "has_table st (tablename m) \<Longrightarrow> ensure_table_exists F st m = Inr st"
  by (simp add: ensure_table_exists_def)

lemma ensure_table_exists_after:
  assumes "ensure_table_exists F st m = Inr st'"
  shows "has_table st' (tablename m)"
    and "distinct (tables st) \<Longrightarrow> distinct (tables st')"
  using assms
  by (auto simp: ensure_table_exists_def has_table_def Let_def split: if_splits option.splits)

lemma model_constructors_cases:
  assumes "(cr, tnf, suffix, b) \<in> set model_constructors"
  shows "cr U cl sy mc =
           (case mc (tnf U cl sy) of
              Some m \<Rightarrow> (m, mc)
            | None \<Rightarrow>
                (\<lparr>class_name = ustr ''Z_FUE_'' @ clean_client_name U cl @ ustr ''_''
                                  @ clean_system_name U sy @ ustr suffix,
                  tablename = tnf U cl sy, base = b\<rparr>,
                 mc(tnf U cl sy \<mapsto>
                      \<lparr>class_name = ustr ''Z_FUE_'' @ clean_client_name U cl @ ustr ''_''
                                        @ clean_system_name U sy @ ustr suffix,
                        tablename = tnf U cl sy, base = b\<rparr>)))"
  using assms
  by (auto simp: model_constructors_def Let_def
      create_lice_data_model_def create_auth_data_model_def create_role_fiori_data_model_def
      create_role_master_derived_data_def create_user_data_def create_user_role_data_def
      split: option.splits)

text \<open>
  C7. Each of the six model constructors looks its table name up in the cache. On a hit it
  returns the cached model and leaves the cache as it is; on a miss it builds the model for
  that table name and stores it under that name. Either way the cache then holds the
  returned model under the table name and is unchanged elsewhere, so a second call returns
  the object and the cache of the first: both descriptors carry one table name and the
  entry is neither rebuilt nor overwritten. \<open>ensure_table_exists\<close> leaves the database
  alone when the table exists; after a call that returned, the table exists, a further call
  changes nothing, and no table name has been created twice.
\<close>

theorem create_model_memoizing:
  assumes "(cr, tnf, suffix, b) \<in> set model_constructors"
  shows "(hit (tnf U cl sy) = Some m \<longrightarrow> cr U cl sy hit = (m, hit))
   \<and> (miss (tnf U cl sy) = None \<longrightarrow>
        cr U cl sy miss =
          (\<lparr>class_name = ustr ''Z_FUE_'' @ clean_client_name U cl @ ustr ''_''
                            @ clean_system_name U sy @ ustr suffix,
            tablename = tnf U cl sy, base = b\<rparr>,
           miss(tnf U cl sy \<mapsto>
                  \<lparr>class_name = ustr ''Z_FUE_'' @ clean_client_name U cl @ ustr ''_''
                                    @ clean_system_name U sy @ ustr suffix,
                    tablename = tnf U cl sy, base = b\<rparr>)))
   \<and> snd (cr U cl sy mc) (tnf U cl sy) = Some (fst (cr U cl sy mc))
   \<and> (t \<noteq> tnf U cl sy \<longrightarrow> snd (cr U cl sy mc) t = mc t)
   \<and> cr U cl sy (snd (cr U cl sy mc)) = cr U cl sy mc
   \<and> tablename (fst (cr U cl sy (snd (cr U cl sy mc)))) = tablename (fst (cr U cl sy mc))
   \<and> (has_table st (tablename d) \<longrightarrow> ensure_table_exists F st d = Inr st)
   \<and> (ensure_table_exists F st0 d = Inr st1 \<longrightarrow>
        has_table st1 (tablename d) \<and> ensure_table_exists F' st1 d = Inr st1
        \<and> (distinct (tables st0) \<longrightarrow> distinct (tables st1)))"
proof -
  note c = model_constructors_cases [OF assms]
  have hit: "hit (tnf U cl sy) = Some m \<longrightarrow> cr U cl sy hit = (m, hit)"
    by (simp add: c)
  have miss: "miss (tnf U cl sy) = None \<longrightarrow>
        cr U cl sy miss =
          (\<lparr>class_name = ustr ''Z_FUE_'' @ clean_client_name U cl @ ustr ''_''
                            @ clean_system_name U sy @ ustr suffix,
            tablename = tnf U cl sy, base = b\<rparr>,
           miss(tnf U cl sy \<mapsto>
                  \<lparr>class_name = ustr ''Z_FUE_'' @ clean_client_name U cl @ ustr ''_''
                                    @ clean_system_name U sy @ ustr suffix,
                    tablename = tnf U cl sy, base = b\<rparr>))"
    by (simp add: c)
  have holds: "snd (cr U cl sy mc) (tnf U cl sy) = Some (fst (cr U cl sy mc))"
    by (simp add: c split: option.splits)
  have other: "t \<noteq> tnf U cl sy \<longrightarrow> snd (cr U cl sy mc) t = mc t"
    by (simp add: c split: option.splits)
  have again: "cr U cl sy (snd (cr U cl sy mc)) = cr U cl sy mc"
    using holds by (simp add: c [of U cl sy "snd (cr U cl sy mc)"])
  from hit miss holds other again show ?thesis
    by (simp add: ensure_table_exists_has ensure_table_exists_after)
qed

theorem create_model_memoizing_witness:
  "(create_auth_data_model, get_auth_data_tablename, ''AuthData'', BaseAuthData)
      \<in> set model_constructors
   \<and> get_auth_data_tablename ucd_excerpt (ustr ''Acme'') (ustr ''p01'')
       = ustr ''Z_FUE_ACME_P01_ROLE_AUTH_OBJ_DATA''
   \<and> [ustr ''Z_FUE_ACME_P01_ROLE_AUTH_OBJ_DATA'' \<mapsto>
         \<lparr>class_name = ustr ''Cached'', tablename = ustr ''Z_FUE_ACME_P01_ROLE_AUTH_OBJ_DATA'',
          base = BaseAuthData\<rparr>]
        (get_auth_data_tablename ucd_excerpt (ustr ''Acme'') (ustr ''p01''))
       = Some \<lparr>class_name = ustr ''Cached'', tablename = ustr ''Z_FUE_ACME_P01_ROLE_AUTH_OBJ_DATA'',
               base = BaseAuthData\<rparr>
   \<and> (Map.empty :: models_cache) (get_auth_data_tablename ucd_excerpt (ustr ''Acme'') (ustr ''p01''))
       = None
   \<and> ustr ''OTHER'' \<noteq> get_auth_data_tablename ucd_excerpt (ustr ''Acme'') (ustr ''p01'')
   \<and> has_table (empty_state\<lparr>tables := [ustr ''Z_FUE_ACME_P01_ROLE_AUTH_OBJ_DATA'']\<rparr>)
        (tablename \<lparr>class_name = ustr ''Z_FUE_ACME_P01AuthData'',
                    tablename = ustr ''Z_FUE_ACME_P01_ROLE_AUTH_OBJ_DATA'', base = BaseAuthData\<rparr>)
   \<and> ensure_table_exists no_faults empty_state
        \<lparr>class_name = ustr ''Z_FUE_ACME_P01AuthData'',
         tablename = ustr ''Z_FUE_ACME_P01_ROLE_AUTH_OBJ_DATA'', base = BaseAuthData\<rparr>
       = Inr (empty_state\<lparr>tables := [ustr ''Z_FUE_ACME_P01_ROLE_AUTH_OBJ_DATA'']\<rparr>)
   \<and> distinct (tables empty_state)
   \<and> create_auth_data_model ucd_excerpt (ustr ''Acme'') (ustr ''p01'')
        [ustr ''Z_FUE_ACME_P01_ROLE_AUTH_OBJ_DATA'' \<mapsto>
           \<lparr>class_name = ustr ''Cached'', tablename = ustr ''Z_FUE_ACME_P01_ROLE_AUTH_OBJ_DATA'',
            base = BaseAuthData\<rparr>]
       = (\<lparr>class_name = ustr ''Cached'', tablename = ustr ''Z_FUE_ACME_P01_ROLE_AUTH_OBJ_DATA'',
           base = BaseAuthData\<rparr>,
          [ustr ''Z_FUE_ACME_P01_ROLE_AUTH_OBJ_DATA'' \<mapsto>
             \<lparr>class_name = ustr ''Cached'', tablename = ustr ''Z_FUE_ACME_P01_ROLE_AUTH_OBJ_DATA'',
              base = BaseAuthData\<rparr>])
   \<and> fst (create_auth_data_model ucd_excerpt (ustr ''Acme'') (ustr ''p01'') Map.empty)
       = \<lparr>class_name = ustr ''Z_FUE_ACME_P01AuthData'',
          tablename = ustr ''Z_FUE_ACME_P01_ROLE_AUTH_OBJ_DATA'', base = BaseAuthData\<rparr>
   \<and> snd (create_auth_data_model ucd_excerpt (ustr ''Acme'') (ustr ''p01'') Map.empty)
         (ustr ''Z_FUE_ACME_P01_ROLE_AUTH_OBJ_DATA'')
       = Some \<lparr>class_name = ustr ''Z_FUE_ACME_P01AuthData'',
               tablename = ustr ''Z_FUE_ACME_P01_ROLE_AUTH_OBJ_DATA'', base = BaseAuthData\<rparr>
   \<and> snd (create_auth_data_model ucd_excerpt (ustr ''Acme'') (ustr ''p01'') Map.empty)
         (ustr ''OTHER'') = None
   \<and> create_auth_data_model ucd_excerpt (ustr ''Acme'') (ustr ''p01'')
        (snd (create_auth_data_model ucd_excerpt (ustr ''Acme'') (ustr ''p01'') Map.empty))
       = create_auth_data_model ucd_excerpt (ustr ''Acme'') (ustr ''p01'') Map.empty
   \<and> ensure_table_exists no_faults
        (empty_state\<lparr>tables := [ustr ''Z_FUE_ACME_P01_ROLE_AUTH_OBJ_DATA'']\<rparr>)
        \<lparr>class_name = ustr ''Z_FUE_ACME_P01AuthData'',
         tablename = ustr ''Z_FUE_ACME_P01_ROLE_AUTH_OBJ_DATA'', base = BaseAuthData\<rparr>
       = Inr (empty_state\<lparr>tables := [ustr ''Z_FUE_ACME_P01_ROLE_AUTH_OBJ_DATA'']\<rparr>)
   \<and> distinct (tables (empty_state\<lparr>tables := [ustr ''Z_FUE_ACME_P01_ROLE_AUTH_OBJ_DATA'']\<rparr>))"
proof -
  let ?T = "ustr ''Z_FUE_ACME_P01_ROLE_AUTH_OBJ_DATA''"
  let ?C = "\<lparr>class_name = ustr ''Cached'', tablename = ?T, base = BaseAuthData\<rparr>"
  let ?M = "\<lparr>class_name = ustr ''Z_FUE_ACME_P01AuthData'', tablename = ?T, base = BaseAuthData\<rparr>"
  let ?S = "empty_state\<lparr>tables := [?T]\<rparr>"
  have h0: "(create_auth_data_model, get_auth_data_tablename, ''AuthData'', BaseAuthData)
      \<in> set model_constructors"
    by (simp add: model_constructors_def)
  have t: "get_auth_data_tablename ucd_excerpt (ustr ''Acme'') (ustr ''p01'') = ?T"
    by (simp add: get_auth_data_tablename_def name_defs)
  have cn: "ustr ''Z_FUE_'' @ clean_client_name ucd_excerpt (ustr ''Acme'') @ ustr ''_''
              @ clean_system_name ucd_excerpt (ustr ''p01'') @ ustr ''AuthData''
            = ustr ''Z_FUE_ACME_P01AuthData''"
    by (simp add: name_defs)
  have h1: "[?T \<mapsto> ?C] (get_auth_data_tablename ucd_excerpt (ustr ''Acme'') (ustr ''p01'')) = Some ?C"
    by (simp add: t)
  have h2: "(Map.empty :: models_cache) (get_auth_data_tablename ucd_excerpt (ustr ''Acme'') (ustr ''p01'')) = None"
    by simp
  have h3: "ustr ''OTHER'' \<noteq> get_auth_data_tablename ucd_excerpt (ustr ''Acme'') (ustr ''p01'')"
    by (simp add: t) (simp add: ustr_def)
  have h4: "has_table ?S (tablename ?M)"
    by (simp add: has_table_def)
  have h5: "ensure_table_exists no_faults empty_state ?M = Inr ?S"
    by (simp add: ensure_table_exists_def has_table_def empty_state_def no_faults_def)
  have h6: "distinct (tables empty_state)"
    by (simp add: empty_state_def)
  note w = create_model_memoizing [OF h0, of "[?T \<mapsto> ?C]" ucd_excerpt "ustr ''Acme''" "ustr ''p01''"
      ?C Map.empty Map.empty "ustr ''OTHER''" ?S ?M no_faults empty_state ?S no_faults]
  have c1: "create_auth_data_model ucd_excerpt (ustr ''Acme'') (ustr ''p01'') [?T \<mapsto> ?C]
              = (?C, [?T \<mapsto> ?C])"
    using w h1 by blast
  have c2: "create_auth_data_model ucd_excerpt (ustr ''Acme'') (ustr ''p01'') Map.empty
              = (?M, [?T \<mapsto> ?M])"
    using w h2 by (simp add: t cn)
  have c3: "snd (create_auth_data_model ucd_excerpt (ustr ''Acme'') (ustr ''p01'') Map.empty)
              (ustr ''OTHER'') = None"
    using w h3 by simp
  have c4: "create_auth_data_model ucd_excerpt (ustr ''Acme'') (ustr ''p01'')
        (snd (create_auth_data_model ucd_excerpt (ustr ''Acme'') (ustr ''p01'') Map.empty))
       = create_auth_data_model ucd_excerpt (ustr ''Acme'') (ustr ''p01'') Map.empty"
    using w by blast
  have c5: "ensure_table_exists no_faults ?S ?M = Inr ?S \<and> distinct (tables ?S)"
    using w h5 h6 by blast
  show ?thesis
    using h0 t h1 h2 h3 h4 h5 h6 c1 c3 c4 c5
    by (simp add: c2)
qed

text \<open>
  C10. The tenants (\<open>A B\<close>, \<open>C\<close>) and (\<open>A\<close>, \<open>B C\<close>) differ, yet every record
  kind gives them the same table name, and the model requested for the second tenant is
  the cached model of the first: one cache entry and one table for both.
\<close>

theorem tablename_not_injective:
  "(ustr ''A B'', ustr ''C'') \<noteq> (ustr ''A'', ustr ''B C'')
   \<and> get_lice_data_tablename U (ustr ''A B'') (ustr ''C'')
       = get_lice_data_tablename U (ustr ''A'') (ustr ''B C'')
   \<and> get_auth_data_tablename U (ustr ''A B'') (ustr ''C'')
       = get_auth_data_tablename U (ustr ''A'') (ustr ''B C'')
   \<and> get_role_fiori_data_tablename U (ustr ''A B'') (ustr ''C'')
       = get_role_fiori_data_tablename U (ustr ''A'') (ustr ''B C'')
   \<and> get_role_master_derived_data_tablename U (ustr ''A B'') (ustr ''C'')
       = get_role_master_derived_data_tablename U (ustr ''A'') (ustr ''B C'')
   \<and> get_user_data_tablename U (ustr ''A B'') (ustr ''C'')
       = get_user_data_tablename U (ustr ''A'') (ustr ''B C'')
   \<and> get_user_role_data_tablename U (ustr ''A B'') (ustr ''C'')
       = get_user_role_data_tablename U (ustr ''A'') (ustr ''B C'')
   \<and> get_auth_data_tablename U (ustr ''A B'') (ustr ''C'') = ustr ''Z_FUE_A_B_C_ROLE_AUTH_OBJ_DATA''
   \<and> create_lice_data_model U (ustr ''A'') (ustr ''B C'')
         (snd (create_lice_data_model U (ustr ''A B'') (ustr ''C'') mc))
       = create_lice_data_model U (ustr ''A B'') (ustr ''C'') mc
   \<and> create_auth_data_model U (ustr ''A'') (ustr ''B C'')
         (snd (create_auth_data_model U (ustr ''A B'') (ustr ''C'') mc))
       = create_auth_data_model U (ustr ''A B'') (ustr ''C'') mc
   \<and> create_role_fiori_data_model U (ustr ''A'') (ustr ''B C'')
         (snd (create_role_fiori_data_model U (ustr ''A B'') (ustr ''C'') mc))
       = create_role_fiori_data_model U (ustr ''A B'') (ustr ''C'') mc
   \<and> create_role_master_derived_data U (ustr ''A'') (ustr ''B C'')
         (snd (create_role_master_derived_data U (ustr ''A B'') (ustr ''C'') mc))
       = create_role_master_derived_data U (ustr ''A B'') (ustr ''C'') mc
   \<and> create_user_data U (ustr ''A'') (ustr ''B C'')
         (snd (create_user_data U (ustr ''A B'') (ustr ''C'') mc))
       = create_user_data U (ustr ''A B'') (ustr ''C'') mc
   \<and> create_user_role_data U (ustr ''A'') (ustr ''B C'')
         (snd (create_user_role_data U (ustr ''A B'') (ustr ''C'') mc))
       = create_user_role_data U (ustr ''A B'') (ustr ''C'') mc"
proof -
  have c: "clean_client_name U (ustr ''A B'') = ustr ''A_B''"
    "clean_system_name U (ustr ''C'') = ustr ''C''"
    "clean_client_name U (ustr ''A'') = ustr ''A''"
    "clean_system_name U (ustr ''B C'') = ustr ''B_C''"
    by (simp_all add: name_defs)
  have n1: "get_lice_data_tablename U (ustr ''A'') (ustr ''B C'')
          = get_lice_data_tablename U (ustr ''A B'') (ustr ''C'')"
    by (simp add: get_lice_data_tablename_def c) (simp add: ustr_def)
  have n2: "get_auth_data_tablename U (ustr ''A'') (ustr ''B C'')
          = get_auth_data_tablename U (ustr ''A B'') (ustr ''C'')"
    by (simp add: get_auth_data_tablename_def c) (simp add: ustr_def)
  have n3: "get_role_fiori_data_tablename U (ustr ''A'') (ustr ''B C'')
          = get_role_fiori_data_tablename U (ustr ''A B'') (ustr ''C'')"
    by (simp add: get_role_fiori_data_tablename_def c) (simp add: ustr_def)
  have n4: "get_role_master_derived_data_tablename U (ustr ''A'') (ustr ''B C'')
          = get_role_master_derived_data_tablename U (ustr ''A B'') (ustr ''C'')"
    by (simp add: get_role_master_derived_data_tablename_def c) (simp add: ustr_def)
  have n5: "get_user_data_tablename U (ustr ''A'') (ustr ''B C'')
          = get_user_data_tablename U (ustr ''A B'') (ustr ''C'')"
    by (simp add: get_user_data_tablename_def c) (simp add: ustr_def)
  have n6: "get_user_role_data_tablename U (ustr ''A'') (ustr ''B C'')
          = get_user_role_data_tablename U (ustr ''A B'') (ustr ''C'')"
    by (simp add: get_user_role_data_tablename_def c) (simp add: ustr_def)
  have d: "(ustr ''A B'', ustr ''C'') \<noteq> (ustr ''A'', ustr ''B C'')"
    by (simp add: ustr_def)
  have v: "get_auth_data_tablename U (ustr ''A B'') (ustr ''C'') = ustr ''Z_FUE_A_B_C_ROLE_AUTH_OBJ_DATA''"
    by (simp add: get_auth_data_tablename_def c) (simp add: ustr_def)
  show ?thesis
    using d v n1 n2 n3 n4 n5 n6
      create_lice_data_model_again [OF n1] create_auth_data_model_again [OF n2]
      create_role_fiori_data_model_again [OF n3] create_role_master_derived_data_again [OF n4]
      create_user_data_again [OF n5] create_user_role_data_again [OF n6]
    by simp
qed

section \<open>The load transaction\<close>


lemma ensure_table_exists_cases:
  "(\<exists>t. ensure_table_exists F st m = Inl (DatabaseError t) \<and> create_error F = Some t)
   \<or> (\<exists>st'. ensure_table_exists F st m = Inr st' \<and> cache st' = cache st
          \<and> stored st' = stored st \<and> session st' = session st)"
  by (cases "create_error F") (auto simp: ensure_table_exists_def Let_def)

lemma ensure_table_exists_no_fault:
  "create_error F = None \<Longrightarrow>
   \<exists>st'. ensure_table_exists F st m = Inr st' \<and> cache st' = cache st
          \<and> stored st' = stored st \<and> session st' = session st"
  using ensure_table_exists_cases [of F st m] by auto

lemma db_query_delete_stored:
  "db_query_delete F t st = Inr st' \<Longrightarrow> stored st' = stored st"
  by (auto simp: db_query_delete_def split: option.splits)

lemma db_query_delete_no_fault:
  "delete_error F = None \<Longrightarrow> db_query_delete F t st = Inr (st\<lparr>session := (session st)(t := [])\<rparr>)"
  by (simp add: db_query_delete_def)

lemma db_rollback_simps [simp]:
  "stored (db_rollback st) = stored st"
  "session (db_rollback st) = stored st"
  "tables (db_rollback st) = tables st"
  "cache (db_rollback st) = cache st"
  by (simp_all add: db_rollback_def)

lemma db_add_all_stored [simp]: "stored (db_add_all t objs st) = stored st"
  by (simp add: db_add_all_def)

lemma load_csv_upload_parse_fails:
  assumes p: "parse_csv L field_map content = Inl p"
  shows "\<exists>e. fst (load_csv_upload create_model field_map U L F (Some content)
                      client_name system_name st) = Inl e"
    and "create_error F = None \<Longrightarrow> delete_error F = None \<Longrightarrow>
         fst (load_csv_upload create_model field_map U L F (Some content)
                client_name system_name st)
           = Inl (DataLoaderError (ustr ''Failed loading CSV data: '' @ p))"
proof -
  define m where "m = fst (create_model U client_name system_name (cache st))"
  define st1 where "st1 = st\<lparr>cache := snd (create_model U client_name system_name (cache st))\<rparr>"
  show "\<exists>e. fst (load_csv_upload create_model field_map U L F (Some content)
                      client_name system_name st) = Inl e"
    using p
    by (cases "ensure_table_exists F st1 m";
        cases "db_query_delete F (tablename m) (projr (ensure_table_exists F st1 m))")
       (auto simp: load_csv_upload_def Let_def m_def st1_def)
  assume nf: "create_error F = None" "delete_error F = None"
  obtain st2 where e2: "ensure_table_exists F st1 m = Inr st2"
    using ensure_table_exists_no_fault [OF nf(1)] by blast
  show "fst (load_csv_upload create_model field_map U L F (Some content)
                client_name system_name st)
           = Inl (DataLoaderError (ustr ''Failed loading CSV data: '' @ p))"
    using p e2 db_query_delete_no_fault [OF nf(2)]
    by (simp add: load_csv_upload_def Let_def m_def st1_def)
qed

lemma load_csv_upload_success:
  assumes p: "parse_csv L field_map content = Inr objs"
    and nf: "create_error F = None" "delete_error F = None" "commit_error F = None"
  shows "fst (load_csv_upload create_model field_map U L F (Some content)
                client_name system_name st)
           = Inr \<lparr>message = ustr ''Successfully loaded '' @ str_nat (length objs)
                              @ ustr '' records into ''
                              @ tablename (fst (create_model U client_name system_name (cache st))),
                  table_name = Some (tablename (fst (create_model U client_name system_name (cache st)))),
                  records_loaded = length objs\<rparr>"
    and "stored (snd (load_csv_upload create_model field_map U L F (Some content)
                client_name system_name st))
           (tablename (fst (create_model U client_name system_name (cache st)))) = objs"
proof -
  define m where "m = fst (create_model U client_name system_name (cache st))"
  define st1 where "st1 = st\<lparr>cache := snd (create_model U client_name system_name (cache st))\<rparr>"
  obtain st2 where e2: "ensure_table_exists F st1 m = Inr st2"
    using ensure_table_exists_no_fault [OF nf(1)] by blast
  show "fst (load_csv_upload create_model field_map U L F (Some content)
                client_name system_name st)
           = Inr \<lparr>message = ustr ''Successfully loaded '' @ str_nat (length objs)
                              @ ustr '' records into ''
                              @ tablename (fst (create_model U client_name system_name (cache st))),
                  table_name = Some (tablename (fst (create_model U client_name system_name (cache st)))),
                  records_loaded = length objs\<rparr>"
    using p e2 nf db_query_delete_no_fault [OF nf(2)]
    by (simp add: load_csv_upload_def Let_def m_def st1_def db_commit_def)
  show "stored (snd (load_csv_upload create_model field_map U L F (Some content)
                client_name system_name st))
           (tablename (fst (create_model U client_name system_name (cache st)))) = objs"
    using p e2 nf db_query_delete_no_fault [OF nf(2)]
    by (simp add: load_csv_upload_def Let_def m_def st1_def db_commit_def db_add_all_def)
qed

lemma load_csv_upload_failure:
  assumes run: "load_csv_upload create_model field_map U L F csv_file client_name system_name st
                  = (Inl e, st')"
  shows "stored st' = stored st"
    and "(\<exists>m. e = DataLoaderError m \<and> session st' = stored st)
         \<or> (\<exists>t. e = DatabaseError t \<and> create_error F = Some t \<and> session st' = session st
                \<and> tables st' = tables st)"
proof -
  obtain content where f: "csv_file = Some content"
    using run by (cases csv_file) (auto simp: load_csv_upload_def)
  define m where "m = fst (create_model U client_name system_name (cache st))"
  define st1 where "st1 = st\<lparr>cache := snd (create_model U client_name system_name (cache st))\<rparr>"
  have "stored st' = stored st
        \<and> ((\<exists>m. e = DataLoaderError m \<and> session st' = stored st)
         \<or> (\<exists>t. e = DatabaseError t \<and> create_error F = Some t \<and> session st' = session st
                \<and> tables st' = tables st))"
    using ensure_table_exists_cases [of F st1 m]
  proof (elim disjE exE conjE)
    fix t assume "ensure_table_exists F st1 m = Inl (DatabaseError t)" "create_error F = Some t"
    with run f show ?thesis
      by (auto simp: load_csv_upload_def Let_def m_def st1_def)
  next
    fix st2 assume e2: "ensure_table_exists F st1 m = Inr st2" and s2: "stored st2 = stored st1"
    show ?thesis
    proof (cases "db_query_delete F (tablename m) st2")
      case (Inl d)
      with run f e2 s2 show ?thesis
        by (auto simp: load_csv_upload_def Let_def m_def st1_def)
    next
      case (Inr st3)
      have s3: "stored st3 = stored st"
        using db_query_delete_stored [OF Inr] s2 by (simp add: st1_def)
      show ?thesis
      proof (cases "parse_csv L field_map content")
        case (Inl p)
        with run f e2 Inr s3 show ?thesis
          by (auto simp: load_csv_upload_def Let_def m_def st1_def)
      next
        case objs: (Inr objects_to_load)
        show ?thesis
        proof (cases "db_commit F (db_add_all (tablename m) objects_to_load st3)")
          case (Inl c)
          with run f e2 Inr objs s3 show ?thesis
            by (auto simp: load_csv_upload_def Let_def m_def st1_def)
        next
          case c: (Inr st5)
          with run f e2 Inr objs show ?thesis
            by (auto simp: load_csv_upload_def Let_def m_def st1_def)
        qed
      qed
    qed
  qed
  then show "stored st' = stored st"
    and "(\<exists>m. e = DataLoaderError m \<and> session st' = stored st)
         \<or> (\<exists>t. e = DatabaseError t \<and> create_error F = Some t \<and> session st' = session st
                \<and> tables st' = tables st)"
    by blast+
qed

lemma load_lice_parse_fails:
  assumes p: "parse_lice_xml L content = Inl p"
  shows "\<exists>e. fst (load_lice_data_from_xml_upload U L F (Some content)
                      client_name system_name st) = Inl e"
    and "create_error F = None \<Longrightarrow> delete_error F = None \<Longrightarrow>
         fst (load_lice_data_from_xml_upload U L F (Some content)
                client_name system_name st)
           = Inl (DataLoaderError p)"
proof -
  define m where "m = fst (create_lice_data_model U client_name system_name (cache st))"
  define st1 where "st1 = st\<lparr>cache := snd (create_lice_data_model U client_name system_name (cache st))\<rparr>"
  show "\<exists>e. fst (load_lice_data_from_xml_upload U L F (Some content)
                      client_name system_name st) = Inl e"
    using p
    by (cases "ensure_table_exists F st1 m";
        cases "db_query_delete F (tablename m) (projr (ensure_table_exists F st1 m))")
       (auto simp: load_lice_data_from_xml_upload_def Let_def m_def st1_def)
  assume nf: "create_error F = None" "delete_error F = None"
  obtain st2 where e2: "ensure_table_exists F st1 m = Inr st2"
    using ensure_table_exists_no_fault [OF nf(1)] by blast
  show "fst (load_lice_data_from_xml_upload U L F (Some content)
                client_name system_name st)
           = Inl (DataLoaderError p)"
    using p e2 db_query_delete_no_fault [OF nf(2)]
    by (simp add: load_lice_data_from_xml_upload_def Let_def m_def st1_def)
qed

lemma load_lice_success:
  assumes p: "parse_lice_xml L content = Inr objs"
    and nf: "create_error F = None" "delete_error F = None" "commit_error F = None"
  shows "fst (load_lice_data_from_xml_upload U L F (Some content)
                client_name system_name st)
           = Inr \<lparr>message = ustr ''Successfully loaded '' @ str_nat (length objs)
                              @ ustr '' records into ''
                              @ tablename (fst (create_lice_data_model U client_name system_name (cache st))),
                  table_name = Some (tablename (fst (create_lice_data_model U client_name system_name (cache st)))),
                  records_loaded = length objs\<rparr>"
    and "stored (snd (load_lice_data_from_xml_upload U L F (Some content)
                client_name system_name st))
           (tablename (fst (create_lice_data_model U client_name system_name (cache st)))) = objs"
proof -
  define m where "m = fst (create_lice_data_model U client_name system_name (cache st))"
  define st1 where "st1 = st\<lparr>cache := snd (create_lice_data_model U client_name system_name (cache st))\<rparr>"
  obtain st2 where e2: "ensure_table_exists F st1 m = Inr st2"
    using ensure_table_exists_no_fault [OF nf(1)] by blast
  show "fst (load_lice_data_from_xml_upload U L F (Some content)
                client_name system_name st)
           = Inr \<lparr>message = ustr ''Successfully loaded '' @ str_nat (length objs)
                              @ ustr '' records into ''
                              @ tablename (fst (create_lice_data_model U client_name system_name (cache st))),
                  table_name = Some (tablename (fst (create_lice_data_model U client_name system_name (cache st)))),
                  records_loaded = length objs\<rparr>"
    using p e2 nf db_query_delete_no_fault [OF nf(2)]
    by (simp add: load_lice_data_from_xml_upload_def Let_def m_def st1_def db_commit_def)
  show "stored (snd (load_lice_data_from_xml_upload U L F (Some content)
                client_name system_name st))
           (tablename (fst (create_lice_data_model U client_name system_name (cache st)))) = objs"
    using p e2 nf db_query_delete_no_fault [OF nf(2)]
    by (simp add: load_lice_data_from_xml_upload_def Let_def m_def st1_def db_commit_def db_add_all_def)
qed

lemma load_lice_failure:
  assumes run: "load_lice_data_from_xml_upload U L F xml_file client_name system_name st
                  = (Inl e, st')"
  shows "stored st' = stored st"
    and "(\<exists>m. e = DataLoaderError m \<and> session st' = stored st)
         \<or> (\<exists>t. e = DatabaseError t \<and> create_error F = Some t \<and> session st' = session st
                \<and> tables st' = tables st)"
proof -
  obtain content where f: "xml_file = Some content"
    using run by (cases xml_file) (auto simp: load_lice_data_from_xml_upload_def)
  define m where "m = fst (create_lice_data_model U client_name system_name (cache st))"
  define st1 where "st1 = st\<lparr>cache := snd (create_lice_data_model U client_name system_name (cache st))\<rparr>"
  have "stored st' = stored st
        \<and> ((\<exists>m. e = DataLoaderError m \<and> session st' = stored st)
         \<or> (\<exists>t. e = DatabaseError t \<and> create_error F = Some t \<and> session st' = session st
                \<and> tables st' = tables st))"
    using ensure_table_exists_cases [of F st1 m]
  proof (elim disjE exE conjE)
    fix t assume "ensure_table_exists F st1 m = Inl (DatabaseError t)" "create_error F = Some t"
    with run f show ?thesis
      by (auto simp: load_lice_data_from_xml_upload_def Let_def m_def st1_def)
  next
    fix st2 assume e2: "ensure_table_exists F st1 m = Inr st2" and s2: "stored st2 = stored st1"
    show ?thesis
    proof (cases "db_query_delete F (tablename m) st2")
      case (Inl d)
      with run f e2 s2 show ?thesis
        by (auto simp: load_lice_data_from_xml_upload_def Let_def m_def st1_def)
    next
      case (Inr st3)
      have s3: "stored st3 = stored st"
        using db_query_delete_stored [OF Inr] s2 by (simp add: st1_def)
      show ?thesis
      proof (cases "parse_lice_xml L content")
        case (Inl p)
        with run f e2 Inr s3 show ?thesis
          by (auto simp: load_lice_data_from_xml_upload_def Let_def m_def st1_def)
      next
        case objs: (Inr objects_to_load)
        show ?thesis
        proof (cases "db_commit F (db_add_all (tablename m) objects_to_load st3)")
          case (Inl c)
          with run f e2 Inr objs s3 show ?thesis
            by (auto simp: load_lice_data_from_xml_upload_def Let_def m_def st1_def)
        next
          case c: (Inr st5)
          with run f e2 Inr objs show ?thesis
            by (auto simp: load_lice_data_from_xml_upload_def Let_def m_def st1_def)
        qed
      qed
    qed
  qed
  then show "stored st' = stored st"
    and "(\<exists>m. e = DataLoaderError m \<and> session st' = stored st)
         \<or> (\<exists>t. e = DatabaseError t \<and> create_error F = Some t \<and> session st' = session st
                \<and> tables st' = tables st)"
    by blast+
qed


section \<open>CSV rows\<close>


lemma obj_data_None_iff:
  "obj_data field_map row = None \<longleftrightarrow> (\<exists>p\<in>set field_map. length row \<le> snd p)"
  by (induction field_map row rule: obj_data.induct) (fastforce split: option.splits)+

lemma csv_loaders_cases:
  assumes "(ld, cr, fm) \<in> set csv_loaders"
  shows "ld = load_csv_upload cr fm"
    and "obj_data fm row = None \<longleftrightarrow> length row < length fm"
  using assms
  by (auto simp: csv_loaders_def obj_data_None_iff
      load_auth_data_from_csv_upload_def auth_field_map_def
      load_role_fiori_map_data_from_csv_upload_def role_fiori_field_map_def
      load_master_derived_role_data_from_csv_upload_def master_derived_field_map_def
      load_user_role_map_data_from_csv_upload_def user_role_field_map_def
      load_user_data_from_csv_upload_def user_field_map_def)

lemma csv_rows_short_fails:
  "Row r \<in> set items \<Longrightarrow> obj_data fm r = None \<Longrightarrow> \<exists>e. csv_rows fm k items acc = Inl e"
proof (induction items arbitrary: k acc)
  case Nil
  then show ?case by simp
next
  case (Cons it items)
  show ?case
  proof (cases it)
    case (CsvError e)
    then show ?thesis by simp
  next
    case (Row r')
    show ?thesis
    proof (cases "obj_data fm r'")
      case None
      with Row show ?thesis by simp
    next
      case (Some d)
      with Row Cons.prems have "Row r \<in> set items" by auto
      from Cons.IH [OF this Cons.prems(2)] Row Some show ?thesis by simp
    qed
  qed
qed

lemma csv_rows_first_short:
  assumes "i < length items" and "items ! i = Row r" and "obj_data fm r = None"
    and "\<forall>j<i. \<exists>r'. items ! j = Row r' \<and> obj_data fm r' \<noteq> None"
  shows "csv_rows fm k items acc =
           Inl (ustr ''Error processing row '' @ str_nat (k + i + 2) @ ustr '': Not enough columns.'')"
  using assms
proof (induction items arbitrary: i k acc)
  case Nil
  then show ?case by simp
next
  case (Cons it items)
  show ?case
  proof (cases i)
    case 0
    with Cons.prems show ?thesis by simp
  next
    case (Suc n)
    from Cons.prems(4) Suc obtain r' where r': "it = Row r'" "obj_data fm r' \<noteq> None"
      by fastforce
    then obtain d where d: "obj_data fm r' = Some d" by auto
    have later: "\<forall>j<n. \<exists>r'. items ! j = Row r' \<and> obj_data fm r' \<noteq> None"
    proof (intro allI impI)
      fix j assume "j < n"
      then have "Suc j < i" using Suc by simp
      with Cons.prems(4) show "\<exists>r'. items ! j = Row r' \<and> obj_data fm r' \<noteq> None"
        by fastforce
    qed
    have "csv_rows fm (k + 1) items (acc @ [d]) =
            Inl (ustr ''Error processing row '' @ str_nat (k + 1 + n + 2) @ ustr '': Not enough columns.'')"
      using Cons.IH [of n "k + 1" "acc @ [d]"] Cons.prems Suc later by simp
    with r' d Suc show ?thesis by simp
  qed
qed

lemma ensure_table_exists_provided:
  "has_table st (tablename m) \<or> create_error F = None \<Longrightarrow>
   \<exists>st'. ensure_table_exists F st m = Inr st' \<and> cache st' = cache st
          \<and> stored st' = stored st \<and> session st' = session st"
  by (auto simp: ensure_table_exists_def Let_def)

lemma load_csv_upload_outcome:
  assumes prov: "has_table st (tablename (fst (create_model U client_name system_name (cache st))))
                 \<or> create_error F = None"
  shows "fst (load_csv_upload create_model field_map U L F (Some content)
                client_name system_name st) =
           (case delete_error F of
              Some d \<Rightarrow>
                Inl (DataLoaderError
                       (ustr ''Failed to truncate table ''
                          @ tablename (fst (create_model U client_name system_name (cache st)))
                          @ ustr '': '' @ d))
            | None \<Rightarrow>
                (case csv_stage field_map L content of
                   Inl msg \<Rightarrow> Inl (DataLoaderError msg)
                 | Inr objs \<Rightarrow>
                     (case commit_error F of
                        Some c \<Rightarrow> Inl (DataLoaderError (ustr ''Failed loading CSV data: '' @ c))
                      | None \<Rightarrow>
                          Inr \<lparr>message = ustr ''Successfully loaded '' @ str_nat (length objs)
                                  @ ustr '' records into ''
                                  @ tablename (fst (create_model U client_name system_name (cache st))),
                                table_name = Some (tablename (fst (create_model U client_name
                                                                    system_name (cache st)))),
                                records_loaded = length objs\<rparr>)))"
    (is "?R")
    and "stored (snd (load_csv_upload create_model field_map U L F (Some content)
                client_name system_name st)) =
           (case delete_error F of
              Some d \<Rightarrow> stored st
            | None \<Rightarrow>
                (case csv_stage field_map L content of
                   Inl msg \<Rightarrow> stored st
                 | Inr objs \<Rightarrow>
                     (case commit_error F of
                        Some c \<Rightarrow> stored st
                      | None \<Rightarrow>
                          (session st)
                            (tablename (fst (create_model U client_name system_name (cache st)))
                               := objs))))"
    (is "?S")
    and "session (snd (load_csv_upload create_model field_map U L F (Some content)
                client_name system_name st))
         = stored (snd (load_csv_upload create_model field_map U L F (Some content)
                client_name system_name st))"
    (is "?T")
proof -
  define m where "m = fst (create_model U client_name system_name (cache st))"
  define st1 where "st1 = st\<lparr>cache := snd (create_model U client_name system_name (cache st))\<rparr>"
  have "has_table st1 (tablename m) \<or> create_error F = None"
    using prov by (simp add: has_table_def st1_def m_def)
  then obtain st2 where e2: "ensure_table_exists F st1 m = Inr st2"
    and s2: "stored st2 = stored st" "session st2 = session st"
    using ensure_table_exists_provided [of st1 m F] by (auto simp: st1_def)
  have "?R \<and> ?S \<and> ?T"
  proof (cases "delete_error F")
    case (Some d)
    with e2 s2 show ?thesis
      by (simp add: load_csv_upload_def Let_def m_def [symmetric] st1_def [symmetric]
          db_query_delete_def)
  next
    case None
    note del = db_query_delete_no_fault [OF None]
    show ?thesis
    proof (cases "parse_csv L field_map content")
      case (Inl p)
      with e2 s2 None del show ?thesis
        by (simp add: load_csv_upload_def Let_def m_def [symmetric] st1_def [symmetric]
            csv_stage_def)
    next
      case (Inr objs)
      show ?thesis
      proof (cases "commit_error F")
        case c: (Some c)
        with e2 s2 None del Inr show ?thesis
          by (simp add: load_csv_upload_def Let_def m_def [symmetric] st1_def [symmetric]
              csv_stage_def db_commit_def)
      next
        case c: None
        with e2 s2 None del Inr show ?thesis
          by (simp add: load_csv_upload_def Let_def m_def [symmetric] st1_def [symmetric]
              csv_stage_def db_commit_def db_add_all_def)
      qed
    qed
  qed
  then show ?R and ?S and ?T by blast+
qed

lemma load_lice_outcome:
  assumes prov: "has_table st (tablename (fst (create_lice_data_model U client_name system_name (cache st))))
                 \<or> create_error F = None"
  shows "fst (load_lice_data_from_xml_upload U L F (Some content)
                client_name system_name st) =
           (case delete_error F of
              Some d \<Rightarrow>
                Inl (DataLoaderError
                       (ustr ''Failed to truncate table ''
                          @ tablename (fst (create_lice_data_model U client_name system_name (cache st)))
                          @ ustr '': '' @ d))
            | None \<Rightarrow>
                (case parse_lice_xml L content of
                   Inl msg \<Rightarrow> Inl (DataLoaderError msg)
                 | Inr objs \<Rightarrow>
                     (case commit_error F of
                        Some c \<Rightarrow> Inl (DataLoaderError (ustr ''Failed loading XML data: '' @ c))
                      | None \<Rightarrow>
                          Inr \<lparr>message = ustr ''Successfully loaded '' @ str_nat (length objs)
                                  @ ustr '' records into ''
                                  @ tablename (fst (create_lice_data_model U client_name system_name (cache st))),
                                table_name = Some (tablename (fst (create_lice_data_model U client_name
                                                                    system_name (cache st)))),
                                records_loaded = length objs\<rparr>)))"
    (is "?R")
    and "stored (snd (load_lice_data_from_xml_upload U L F (Some content)
                client_name system_name st)) =
           (case delete_error F of
              Some d \<Rightarrow> stored st
            | None \<Rightarrow>
                (case parse_lice_xml L content of
                   Inl msg \<Rightarrow> stored st
                 | Inr objs \<Rightarrow>
                     (case commit_error F of
                        Some c \<Rightarrow> stored st
                      | None \<Rightarrow>
                          (session st)
                            (tablename (fst (create_lice_data_model U client_name system_name (cache st)))
                               := objs))))"
    (is "?S")
    and "session (snd (load_lice_data_from_xml_upload U L F (Some content)
                client_name system_name st))
         = stored (snd (load_lice_data_from_xml_upload U L F (Some content)
                client_name system_name st))"
    (is "?T")
proof -
  define m where "m = fst (create_lice_data_model U client_name system_name (cache st))"
  define st1 where "st1 = st\<lparr>cache := snd (create_lice_data_model U client_name system_name (cache st))\<rparr>"
  have "has_table st1 (tablename m) \<or> create_error F = None"
    using prov by (simp add: has_table_def st1_def m_def)
  then obtain st2 where e2: "ensure_table_exists F st1 m = Inr st2"
    and s2: "stored st2 = stored st" "session st2 = session st"
    using ensure_table_exists_provided [of st1 m F] by (auto simp: st1_def)
  have "?R \<and> ?S \<and> ?T"
  proof (cases "delete_error F")
    case (Some d)
    with e2 s2 show ?thesis
      by (simp add: load_lice_data_from_xml_upload_def Let_def m_def [symmetric] st1_def [symmetric]
          db_query_delete_def)
  next
    case None
    note del = db_query_delete_no_fault [OF None]
    show ?thesis
    proof (cases "parse_lice_xml L content")
      case (Inl p)
      with e2 s2 None del show ?thesis
        by (simp add: load_lice_data_from_xml_upload_def Let_def m_def [symmetric] st1_def [symmetric]
            )
    next
      case (Inr objs)
      show ?thesis
      proof (cases "commit_error F")
        case c: (Some c)
        with e2 s2 None del Inr show ?thesis
          by (simp add: load_lice_data_from_xml_upload_def Let_def m_def [symmetric] st1_def [symmetric]
              db_commit_def)
      next
        case c: None
        with e2 s2 None del Inr show ?thesis
          by (simp add: load_lice_data_from_xml_upload_def Let_def m_def [symmetric] st1_def [symmetric]
              db_commit_def db_add_all_def)
      qed
    qed
  qed
  then show ?R and ?S and ?T by blast+
qed

lemma loader_stages_cases:
  assumes "(ld, cr, stage, prefix) \<in> set loader_stages"
  shows "(ld = load_lice_data_from_xml_upload \<and> cr = create_lice_data_model
            \<and> stage = parse_lice_xml \<and> prefix = ustr ''Failed loading XML data: '')
         \<or> (\<exists>fm. ld = load_csv_upload cr fm \<and> stage = csv_stage fm
                  \<and> prefix = ustr ''Failed loading CSV data: '')"
  using assms
  by (auto simp: loader_stages_def load_auth_data_from_csv_upload_def
      load_role_fiori_map_data_from_csv_upload_def
      load_master_derived_role_data_from_csv_upload_def
      load_user_role_map_data_from_csv_upload_def load_user_data_from_csv_upload_def)

text \<open>
  C1. For each of the six loaders, once the table is provided (it exists, or creating it
  does not fail), the outcome of a load is determined as follows. If the truncate raises,
  or the parse stage fails, or the commit raises, the call raises a \<open>DataLoaderError\<close>
  with the corresponding message and the committed rows of every table are what they were
  before the call; only when none of the three fails does the call return a result, and
  then the table holds exactly the parsed records. In every case the session ends equal to
  the committed rows, so a truncate or insert made by a failed call has been rolled back.
  Moreover any failed call whatsoever leaves the committed rows unchanged, and it is either
  such a rolled-back \<open>DataLoaderError\<close> or the failure to create the table, which is
  raised before the transaction and changes neither the session nor the tables.
\<close>

theorem load_failure_rolls_back:
  assumes "(ld, cr, stage, prefix) \<in> set loader_stages"
    and "has_table st (tablename (fst (cr U client_name system_name (cache st))))
         \<or> create_error F = None"
  shows "fst (ld U L F (Some content) client_name system_name st) =
           (case delete_error F of
              Some d \<Rightarrow>
                Inl (DataLoaderError
                       (ustr ''Failed to truncate table ''
                          @ tablename (fst (cr U client_name system_name (cache st)))
                          @ ustr '': '' @ d))
            | None \<Rightarrow>
                (case stage L content of
                   Inl msg \<Rightarrow> Inl (DataLoaderError msg)
                 | Inr objs \<Rightarrow>
                     (case commit_error F of
                        Some c \<Rightarrow> Inl (DataLoaderError (prefix @ c))
                      | None \<Rightarrow>
                          Inr \<lparr>message = ustr ''Successfully loaded '' @ str_nat (length objs)
                                  @ ustr '' records into ''
                                  @ tablename (fst (cr U client_name system_name (cache st))),
                                table_name = Some (tablename (fst (cr U client_name
                                                                    system_name (cache st)))),
                                records_loaded = length objs\<rparr>)))
         \<and> stored (snd (ld U L F (Some content) client_name system_name st)) =
           (case delete_error F of
              Some d \<Rightarrow> stored st
            | None \<Rightarrow>
                (case stage L content of
                   Inl msg \<Rightarrow> stored st
                 | Inr objs \<Rightarrow>
                     (case commit_error F of
                        Some c \<Rightarrow> stored st
                      | None \<Rightarrow>
                          (session st)
                            (tablename (fst (cr U client_name system_name (cache st)))
                               := objs))))
         \<and> session (snd (ld U L F (Some content) client_name system_name st))
             = stored (snd (ld U L F (Some content) client_name system_name st))
         \<and> (ld U L F2 upload client_name system_name st2 = (Inl e, st2') \<longrightarrow>
              stored st2' = stored st2
              \<and> ((\<exists>m. e = DataLoaderError m \<and> session st2' = stored st2)
                 \<or> (\<exists>t. e = DatabaseError t \<and> create_error F2 = Some t
                        \<and> session st2' = session st2 \<and> tables st2' = tables st2)))"
  using loader_stages_cases [OF assms(1)]
proof (elim disjE exE conjE)
  assume x: "ld = load_lice_data_from_xml_upload" "cr = create_lice_data_model"
    "stage = parse_lice_xml" "prefix = ustr ''Failed loading XML data: ''"
  show ?thesis
    using load_lice_outcome [of st U client_name system_name F L content]
      load_lice_failure [of U L F2 upload client_name system_name st2 e st2']
      assms(2)
    unfolding x by blast
next
  fix fm
  assume x: "ld = load_csv_upload cr fm" "stage = csv_stage fm"
    "prefix = ustr ''Failed loading CSV data: ''"
  show ?thesis
    using load_csv_upload_outcome [of st cr U client_name system_name F fm L content]
      load_csv_upload_failure [of cr fm U L F2 upload client_name system_name st2 e st2']
      assms(2)
    unfolding x by blast
qed

lemmas run_defs = load_csv_upload_def Let_def ensure_table_exists_def has_table_def
  db_query_delete_def db_rollback_def db_add_all_def db_commit_def no_faults_def stored_state_def
  parse_csv_def decode_csv_content_def decode_latin1_def plain_lib_def bstr_def str_nat.simps

theorem load_failure_rolls_back_witness:
  "(load_master_derived_role_data_from_csv_upload, create_role_master_derived_data,
      csv_stage master_derived_field_map, ustr ''Failed loading CSV data: '') \<in> set loader_stages
   \<and> has_table (stored_state (ustr ''Z_FUE_ACME_P01_ROLE_MASTER_DERVI_DATA'')
                  [[(''DERIVED_ROLE'', ustr ''X''), (''MASTER_ROLE'', ustr ''Y'')]])
        (tablename (fst (create_role_master_derived_data ucd_excerpt (ustr ''Acme'') (ustr ''p01'')
           (cache (stored_state (ustr ''Z_FUE_ACME_P01_ROLE_MASTER_DERVI_DATA'')
                     [[(''DERIVED_ROLE'', ustr ''X''), (''MASTER_ROLE'', ustr ''Y'')]])))))
   \<and> csv_stage master_derived_field_map plain_lib (bstr ''D,M'' @ [10] @ bstr ''A,B'' @ [10])
       = Inr [[(''DERIVED_ROLE'', ustr ''A''), (''MASTER_ROLE'', ustr ''B'')]]
   \<and> fst (load_master_derived_role_data_from_csv_upload ucd_excerpt plain_lib
            \<lparr>create_error = None, delete_error = None,
             commit_error = Some (ustr ''connection lost'')\<rparr>
            (Some (bstr ''D,M'' @ [10] @ bstr ''A,B'' @ [10]))
            (ustr ''Acme'') (ustr ''p01'')
            (stored_state (ustr ''Z_FUE_ACME_P01_ROLE_MASTER_DERVI_DATA'')
               [[(''DERIVED_ROLE'', ustr ''X''), (''MASTER_ROLE'', ustr ''Y'')]]))
       = Inl (DataLoaderError (ustr ''Failed loading CSV data: connection lost''))
   \<and> stored (snd (load_master_derived_role_data_from_csv_upload ucd_excerpt plain_lib
            \<lparr>create_error = None, delete_error = None,
             commit_error = Some (ustr ''connection lost'')\<rparr>
            (Some (bstr ''D,M'' @ [10] @ bstr ''A,B'' @ [10]))
            (ustr ''Acme'') (ustr ''p01'')
            (stored_state (ustr ''Z_FUE_ACME_P01_ROLE_MASTER_DERVI_DATA'')
               [[(''DERIVED_ROLE'', ustr ''X''), (''MASTER_ROLE'', ustr ''Y'')]])))
         (ustr ''Z_FUE_ACME_P01_ROLE_MASTER_DERVI_DATA'')
       = [[(''DERIVED_ROLE'', ustr ''X''), (''MASTER_ROLE'', ustr ''Y'')]]
   \<and> session (snd (load_master_derived_role_data_from_csv_upload ucd_excerpt plain_lib
            \<lparr>create_error = None, delete_error = None,
             commit_error = Some (ustr ''connection lost'')\<rparr>
            (Some (bstr ''D,M'' @ [10] @ bstr ''A,B'' @ [10]))
            (ustr ''Acme'') (ustr ''p01'')
            (stored_state (ustr ''Z_FUE_ACME_P01_ROLE_MASTER_DERVI_DATA'')
               [[(''DERIVED_ROLE'', ustr ''X''), (''MASTER_ROLE'', ustr ''Y'')]])))
         (ustr ''Z_FUE_ACME_P01_ROLE_MASTER_DERVI_DATA'')
       = [[(''DERIVED_ROLE'', ustr ''X''), (''MASTER_ROLE'', ustr ''Y'')]]
   \<and> fst (load_master_derived_role_data_from_csv_upload ucd_excerpt plain_lib no_faults
            (Some (bstr ''D,M'' @ [10] @ bstr ''A,B'' @ [10] @ bstr ''C'' @ [10]))
            (ustr ''Acme'') (ustr ''p01'')
            (stored_state (ustr ''Z_FUE_ACME_P01_ROLE_MASTER_DERVI_DATA'')
               [[(''DERIVED_ROLE'', ustr ''X''), (''MASTER_ROLE'', ustr ''Y'')]]))
       = Inl (DataLoaderError
                (ustr ''Failed loading CSV data: Error processing row 3: Not enough columns.''))
   \<and> stored (snd (load_master_derived_role_data_from_csv_upload ucd_excerpt plain_lib no_faults
            (Some (bstr ''D,M'' @ [10] @ bstr ''A,B'' @ [10] @ bstr ''C'' @ [10]))
            (ustr ''Acme'') (ustr ''p01'')
            (stored_state (ustr ''Z_FUE_ACME_P01_ROLE_MASTER_DERVI_DATA'')
               [[(''DERIVED_ROLE'', ustr ''X''), (''MASTER_ROLE'', ustr ''Y'')]])))
       = stored (stored_state (ustr ''Z_FUE_ACME_P01_ROLE_MASTER_DERVI_DATA'')
               [[(''DERIVED_ROLE'', ustr ''X''), (''MASTER_ROLE'', ustr ''Y'')]])
   \<and> session (snd (load_master_derived_role_data_from_csv_upload ucd_excerpt plain_lib no_faults
            (Some (bstr ''D,M'' @ [10] @ bstr ''A,B'' @ [10] @ bstr ''C'' @ [10]))
            (ustr ''Acme'') (ustr ''p01'')
            (stored_state (ustr ''Z_FUE_ACME_P01_ROLE_MASTER_DERVI_DATA'')
               [[(''DERIVED_ROLE'', ustr ''X''), (''MASTER_ROLE'', ustr ''Y'')]])))
         (ustr ''Z_FUE_ACME_P01_ROLE_MASTER_DERVI_DATA'')
       = [[(''DERIVED_ROLE'', ustr ''X''), (''MASTER_ROLE'', ustr ''Y'')]]"
proof -
  let ?T = "ustr ''Z_FUE_ACME_P01_ROLE_MASTER_DERVI_DATA''"
  let ?old = "[[(''DERIVED_ROLE'', ustr ''X''), (''MASTER_ROLE'', ustr ''Y'')]]"
  let ?st = "stored_state ?T ?old"
  let ?F = "\<lparr>create_error = None, delete_error = None,
             commit_error = Some (ustr ''connection lost'')\<rparr>"
  let ?good = "bstr ''D,M'' @ [10] @ bstr ''A,B'' @ [10]"
  let ?run = "load_master_derived_role_data_from_csv_upload ucd_excerpt plain_lib ?F
            (Some ?good) (ustr ''Acme'') (ustr ''p01'') ?st"
  let ?run2 = "load_master_derived_role_data_from_csv_upload ucd_excerpt plain_lib no_faults
            (Some (bstr ''D,M'' @ [10] @ bstr ''A,B'' @ [10] @ bstr ''C'' @ [10]))
            (ustr ''Acme'') (ustr ''p01'') ?st"
  let ?e = "DataLoaderError
              (ustr ''Failed loading CSV data: Error processing row 3: Not enough columns.'')"
  have h1: "(load_master_derived_role_data_from_csv_upload, create_role_master_derived_data,
      csv_stage master_derived_field_map, ustr ''Failed loading CSV data: '') \<in> set loader_stages"
    by (simp add: loader_stages_def)
  have t: "tablename (fst (create_role_master_derived_data ucd_excerpt (ustr ''Acme'') (ustr ''p01'')
             (cache ?st))) = ?T"
    by (simp add: create_role_master_derived_data_def get_role_master_derived_data_tablename_def
        Let_def name_defs stored_state_def)
  have h2: "has_table ?st (tablename (fst (create_role_master_derived_data ucd_excerpt
              (ustr ''Acme'') (ustr ''p01'') (cache ?st))))"
    unfolding t by (simp add: has_table_def stored_state_def)
  have p: "csv_stage master_derived_field_map plain_lib ?good
             = Inr [[(''DERIVED_ROLE'', ustr ''A''), (''MASTER_ROLE'', ustr ''B'')]]"
    by (simp add: csv_stage_def parse_csv_def decode_csv_content_def plain_lib_def bstr_def
        master_derived_field_map_def ustr_def)
  have f: "fst ?run2 = Inl ?e"
    by (simp add: load_master_derived_role_data_from_csv_upload_def run_defs
        create_role_master_derived_data_def get_role_master_derived_data_tablename_def name_defs
        master_derived_field_map_def)
  then have h3: "?run2 = (Inl ?e, snd ?run2)"
    by (metis prod.collapse)
  have s: "stored ?st ?T = ?old"
    by (simp add: stored_state_def)
  have m: "ustr ''Failed loading CSV data: '' @ ustr ''connection lost''
             = ustr ''Failed loading CSV data: connection lost''"
    by (simp add: ustr_def)
  note w = load_failure_rolls_back [OF h1 disjI1 [OF h2], where F = "?F" and content = "?good"
      and L = plain_lib and ?F2.0 = no_faults
      and upload = "Some (bstr ''D,M'' @ [10] @ bstr ''A,B'' @ [10] @ bstr ''C'' @ [10])"
      and ?st2.0 = "?st" and e = "?e" and ?st2' = "snd ?run2"]
  have c1: "fst ?run = Inl (DataLoaderError (ustr ''Failed loading CSV data: connection lost''))"
    using w unfolding p by (simp add: m)
  have c2: "stored (snd ?run) = stored ?st" and c3: "session (snd ?run) = stored (snd ?run)"
    using w unfolding p by simp_all
  have c4: "stored (snd ?run2) = stored ?st" and c5: "session (snd ?run2) = stored ?st"
    using w h3 by auto
  show ?thesis
    using h1 h2 p f c1 c2 c3 c4 c5 s by simp
qed

section \<open>Decoding and parsing CSV input\<close>

text \<open>
  C9. Decoding never fails: the Latin-1 step accepts every byte sequence, so the result is
  the UTF-8 text when that decoder accepts the bytes and the Latin-1 text otherwise, the
  cp1252 decoder has no influence, and the parse stage depends on the bytes only through
  the rows read from the decoded text.
\<close>

theorem decode_never_fails:
  "(\<exists>text. decode_csv_content L bs = Inr text
        \<and> parse_csv L fm bs =
            (case csv_reader L (splitlines L text) of
               [] \<Rightarrow> Inl []
             | CsvError e # rest \<Rightarrow> Inl e
             | Row headers # rest \<Rightarrow> csv_rows fm 0 rest []))
   \<and> decode_csv_content L bs =
       (case decode_utf8_sig L bs of Inr text \<Rightarrow> Inr text | Inl e \<Rightarrow> Inr (map unat bs))
   \<and> decode_csv_content (L\<lparr>decode_cp1252 := f\<rparr>) bs = decode_csv_content L bs"
  by (cases "decode_utf8_sig L bs")
     (simp_all add: decode_csv_content_def decode_latin1_def parse_csv_def)

lemma parse_csv_rows:
  assumes "decode_csv_content L content = Inr text"
    and "csv_reader L (splitlines L text) = Row header # data"
  shows "parse_csv L fm content = csv_rows fm 0 data []"
  using assms by (simp add: parse_csv_def)

text \<open>
  C2. In each CSV loader, let data row \<open>i\<close> (counted from 0 after the header) be the first
  one with fewer columns than the field map reads. Then the load fails and the committed
  rows of every table are what they were; when the table could be provided and truncated,
  the error is the \<open>DataLoaderError\<close> naming line \<open>i + 2\<close> and the session is rolled
  back to the committed rows.
\<close>

theorem csv_short_row_aborts:
  assumes "(ld, cr, fm) \<in> set csv_loaders"
    and "decode_csv_content L content = Inr text"
    and "csv_reader L (splitlines L text) = Row header # data"
    and "i < length data" and "data ! i = Row r" and "length r < length fm"
    and "\<forall>j<i. \<exists>r'. data ! j = Row r' \<and> length fm \<le> length r'"
  shows "(\<exists>e. fst (ld U L F (Some content) client_name system_name st) = Inl e)
         \<and> stored (snd (ld U L F (Some content) client_name system_name st)) = stored st
         \<and> (create_error F = None \<and> delete_error F = None \<longrightarrow>
              fst (ld U L F (Some content) client_name system_name st)
                = Inl (DataLoaderError
                         (ustr ''Failed loading CSV data: '' @ ustr ''Error processing row ''
                            @ str_nat (i + 2) @ ustr '': Not enough columns.''))
              \<and> session (snd (ld U L F (Some content) client_name system_name st)) = stored st)"
proof -
  let ?run = "ld U L F (Some content) client_name system_name st"
  let ?msg = "ustr ''Error processing row '' @ str_nat (i + 2) @ ustr '': Not enough columns.''"
  have ld: "ld = load_csv_upload cr fm"
    by (rule csv_loaders_cases(1) [OF assms(1)])
  have short: "obj_data fm r = None"
    using csv_loaders_cases(2) [OF assms(1)] assms(6) by simp
  have before: "\<forall>j<i. \<exists>r'. data ! j = Row r' \<and> obj_data fm r' \<noteq> None"
  proof (intro allI impI)
    fix j assume "j < i"
    with assms(7) obtain r' where r': "data ! j = Row r'" "length fm \<le> length r'"
      by blast
    have "obj_data fm r' \<noteq> None"
      using csv_loaders_cases(2) [OF assms(1), of r'] r'(2) by simp
    with r'(1) show "\<exists>r'. data ! j = Row r' \<and> obj_data fm r' \<noteq> None"
      by blast
  qed
  have "csv_rows fm 0 data [] = Inl ?msg"
    using csv_rows_first_short [OF assms(4) assms(5) short before, of 0 "[]"] by simp
  then have p: "parse_csv L fm content = Inl ?msg"
    using parse_csv_rows [OF assms(2) assms(3)] by simp
  obtain e where e: "fst ?run = Inl e"
    using load_csv_upload_parse_fails(1) [OF p] ld by blast
  then have run: "load_csv_upload cr fm U L F (Some content) client_name system_name st
                    = (Inl e, snd ?run)"
    using ld by (metis prod.collapse)
  have s: "stored (snd ?run) = stored st"
    by (rule load_csv_upload_failure(1) [OF run])
  have m: "create_error F = None \<and> delete_error F = None \<longrightarrow>
           fst ?run = Inl (DataLoaderError (ustr ''Failed loading CSV data: '' @ ?msg))
           \<and> session (snd ?run) = stored st"
  proof
    assume nf: "create_error F = None \<and> delete_error F = None"
    have f: "fst ?run = Inl (DataLoaderError (ustr ''Failed loading CSV data: '' @ ?msg))"
      using load_csv_upload_parse_fails(2) [OF p] nf ld by blast
    with e load_csv_upload_failure(2) [OF run]
    show "fst ?run = Inl (DataLoaderError (ustr ''Failed loading CSV data: '' @ ?msg))
          \<and> session (snd ?run) = stored st"
      by auto
  qed
  from e s m show ?thesis by blast
qed

text \<open>
  The path the loaders take for input without data rows, when the header line is there and
  no database call fails: the header row is skipped unread, the load returns a result with
  zero records and the table's name, and the commit leaves the table empty.
\<close>

theorem csv_header_only_empties_table:
  assumes "(ld, cr, fm) \<in> set csv_loaders"
    and "decode_csv_content L content = Inr text"
    and "csv_reader L (splitlines L text) = [Row header]"
    and "create_error F = None" and "delete_error F = None" and "commit_error F = None"
  shows "fst (ld U L F (Some content) client_name system_name st)
           = Inr \<lparr>message = ustr ''Successfully loaded 0 records into ''
                              @ tablename (fst (cr U client_name system_name (cache st))),
                  table_name = Some (tablename (fst (cr U client_name system_name (cache st)))),
                  records_loaded = 0\<rparr>
         \<and> stored (snd (ld U L F (Some content) client_name system_name st))
             (tablename (fst (cr U client_name system_name (cache st)))) = []"
proof -
  have ld: "ld = load_csv_upload cr fm"
    by (rule csv_loaders_cases(1) [OF assms(1)])
  have p: "parse_csv L fm content = Inr []"
    using parse_csv_rows [OF assms(2) assms(3)] by simp
  have z: "ustr ''Successfully loaded '' @ str_nat 0 @ ustr '' records into ''
             = ustr ''Successfully loaded 0 records into ''"
    by (simp add: ustr_def str_nat.simps)
  show ?thesis
    using load_csv_upload_success [OF p assms(4) assms(5) assms(6), of cr U client_name system_name st]
      ld z
    by simp
qed

theorem csv_short_row_aborts_witness:
  "(load_master_derived_role_data_from_csv_upload, create_role_master_derived_data,
      master_derived_field_map) \<in> set csv_loaders
   \<and> decode_csv_content plain_lib (bstr ''D,M'' @ [10] @ bstr ''A,B'' @ [10] @ bstr ''C'' @ [10])
       = Inr (ustr ''D,M'' @ [10] @ ustr ''A,B'' @ [10] @ ustr ''C'' @ [10])
   \<and> csv_reader plain_lib
         (splitlines plain_lib (ustr ''D,M'' @ [10] @ ustr ''A,B'' @ [10] @ ustr ''C'' @ [10]))
       = Row [ustr ''D'', ustr ''M''] # [Row [ustr ''A'', ustr ''B''], Row [ustr ''C'']]
   \<and> (1::nat) < length [Row [ustr ''A'', ustr ''B''], Row [ustr ''C'']]
   \<and> [Row [ustr ''A'', ustr ''B''], Row [ustr ''C'']] ! 1 = Row [ustr ''C'']
   \<and> length [ustr ''C''] < length master_derived_field_map
   \<and> list_all (\<lambda>j. \<exists>r'. [Row [ustr ''A'', ustr ''B''], Row [ustr ''C'']] ! j = Row r'
                        \<and> length master_derived_field_map \<le> length r') [0..<1]
   \<and> create_error no_faults = None \<and> delete_error no_faults = None
   \<and> fst (load_master_derived_role_data_from_csv_upload ucd_excerpt plain_lib no_faults
            (Some (bstr ''D,M'' @ [10] @ bstr ''A,B'' @ [10] @ bstr ''C'' @ [10]))
            (ustr ''Acme'') (ustr ''p01'')
            (stored_state (ustr ''Z_FUE_ACME_P01_ROLE_MASTER_DERVI_DATA'')
               [[(''DERIVED_ROLE'', ustr ''X''), (''MASTER_ROLE'', ustr ''Y'')]]))
       = Inl (DataLoaderError
                (ustr ''Failed loading CSV data: Error processing row 3: Not enough columns.''))
   \<and> stored (snd (load_master_derived_role_data_from_csv_upload ucd_excerpt plain_lib no_faults
            (Some (bstr ''D,M'' @ [10] @ bstr ''A,B'' @ [10] @ bstr ''C'' @ [10]))
            (ustr ''Acme'') (ustr ''p01'')
            (stored_state (ustr ''Z_FUE_ACME_P01_ROLE_MASTER_DERVI_DATA'')
               [[(''DERIVED_ROLE'', ustr ''X''), (''MASTER_ROLE'', ustr ''Y'')]])))
         (ustr ''Z_FUE_ACME_P01_ROLE_MASTER_DERVI_DATA'')
       = [[(''DERIVED_ROLE'', ustr ''X''), (''MASTER_ROLE'', ustr ''Y'')]]"
proof -
  let ?content = "bstr ''D,M'' @ [10] @ bstr ''A,B'' @ [10] @ bstr ''C'' @ [10]"
  let ?text = "ustr ''D,M'' @ [10] @ ustr ''A,B'' @ [10] @ ustr ''C'' @ [10]"
  let ?data = "[Row [ustr ''A'', ustr ''B''], Row [ustr ''C'']]"
  let ?st = "stored_state (ustr ''Z_FUE_ACME_P01_ROLE_MASTER_DERVI_DATA'')
               [[(''DERIVED_ROLE'', ustr ''X''), (''MASTER_ROLE'', ustr ''Y'')]]"
  have h1: "(load_master_derived_role_data_from_csv_upload, create_role_master_derived_data,
      master_derived_field_map) \<in> set csv_loaders"
    by (simp add: csv_loaders_def)
  have h2: "decode_csv_content plain_lib ?content = Inr ?text"
    by (simp add: decode_csv_content_def plain_lib_def bstr_def ustr_def)
  have h3: "csv_reader plain_lib (splitlines plain_lib ?text) = Row [ustr ''D'', ustr ''M''] # ?data"
    by (simp add: plain_lib_def ustr_def)
  have h4: "(1::nat) < length ?data"
    by simp
  have h5: "?data ! 1 = Row [ustr ''C'']"
    by simp
  have h6: "length [ustr ''C''] < length master_derived_field_map"
    by (simp add: master_derived_field_map_def)
  have h7: "\<forall>j<1. \<exists>r'. ?data ! j = Row r' \<and> length master_derived_field_map \<le> length r'"
    by (simp add: master_derived_field_map_def)
  have h7': "list_all (\<lambda>j. \<exists>r'. ?data ! j = Row r'
                        \<and> length master_derived_field_map \<le> length r') [0..<1]"
    by (simp add: master_derived_field_map_def)
  have h8: "create_error no_faults = None \<and> delete_error no_faults = None"
    by (simp add: no_faults_def)
  have n: "ustr ''Failed loading CSV data: '' @ ustr ''Error processing row ''
             @ str_nat (1 + 2) @ ustr '': Not enough columns.''
           = ustr ''Failed loading CSV data: Error processing row 3: Not enough columns.''"
    by (simp add: ustr_def str_nat.simps)
  have s: "stored ?st (ustr ''Z_FUE_ACME_P01_ROLE_MASTER_DERVI_DATA'')
             = [[(''DERIVED_ROLE'', ustr ''X''), (''MASTER_ROLE'', ustr ''Y'')]]"
    by (simp add: stored_state_def)
  show ?thesis
    using h1 h2 h3 h4 h5 h6 h7' h8 s
      csv_short_row_aborts [OF h1 h2 h3 h4 h5 h6 h7, of ucd_excerpt no_faults
        "ustr ''Acme''" "ustr ''p01''" ?st]
    unfolding n
    by simp
qed

theorem csv_header_only_empties_table_example:
  "(load_user_role_map_data_from_csv_upload, create_user_role_data, user_role_field_map)
      \<in> set csv_loaders
   \<and> decode_csv_content plain_lib (bstr ''anything at all'' @ [10])
       = Inr (ustr ''anything at all'' @ [10])
   \<and> csv_reader plain_lib (splitlines plain_lib (ustr ''anything at all'' @ [10]))
       = [Row [ustr ''anything at all'']]
   \<and> create_error no_faults = None \<and> delete_error no_faults = None
   \<and> commit_error no_faults = None
   \<and> stored (stored_state (ustr ''Z_FUE_ACME_P01_USER_ROLE_DATA'')
                [[(''ROLE'', ustr ''X''), (''USER_NAME'', ustr ''Y'')]])
        (ustr ''Z_FUE_ACME_P01_USER_ROLE_DATA'')
       = [[(''ROLE'', ustr ''X''), (''USER_NAME'', ustr ''Y'')]]
   \<and> fst (load_user_role_map_data_from_csv_upload ucd_excerpt plain_lib no_faults
            (Some (bstr ''anything at all'' @ [10])) (ustr ''Acme'') (ustr ''p01'')
            (stored_state (ustr ''Z_FUE_ACME_P01_USER_ROLE_DATA'')
               [[(''ROLE'', ustr ''X''), (''USER_NAME'', ustr ''Y'')]]))
       = Inr \<lparr>message = ustr ''Successfully loaded 0 records into Z_FUE_ACME_P01_USER_ROLE_DATA'',
              table_name = Some (ustr ''Z_FUE_ACME_P01_USER_ROLE_DATA''),
              records_loaded = 0\<rparr>
   \<and> stored (snd (load_user_role_map_data_from_csv_upload ucd_excerpt plain_lib no_faults
            (Some (bstr ''anything at all'' @ [10])) (ustr ''Acme'') (ustr ''p01'')
            (stored_state (ustr ''Z_FUE_ACME_P01_USER_ROLE_DATA'')
               [[(''ROLE'', ustr ''X''), (''USER_NAME'', ustr ''Y'')]])))
         (ustr ''Z_FUE_ACME_P01_USER_ROLE_DATA'')
       = []"
proof -
  let ?content = "bstr ''anything at all'' @ [10]"
  let ?text = "ustr ''anything at all'' @ [10]"
  let ?st = "stored_state (ustr ''Z_FUE_ACME_P01_USER_ROLE_DATA'')
               [[(''ROLE'', ustr ''X''), (''USER_NAME'', ustr ''Y'')]]"
  have h1: "(load_user_role_map_data_from_csv_upload, create_user_role_data, user_role_field_map)
      \<in> set csv_loaders"
    by (simp add: csv_loaders_def)
  have h2: "decode_csv_content plain_lib ?content = Inr ?text"
    by (simp add: decode_csv_content_def plain_lib_def bstr_def ustr_def)
  have h3: "csv_reader plain_lib (splitlines plain_lib ?text) = [Row [ustr ''anything at all'']]"
    by (simp add: plain_lib_def ustr_def)
  have h4: "create_error no_faults = None" and h5: "delete_error no_faults = None"
    and h6: "commit_error no_faults = None"
    by (simp_all add: no_faults_def)
  have t: "tablename (fst (create_user_role_data ucd_excerpt (ustr ''Acme'') (ustr ''p01'') (cache ?st)))
             = ustr ''Z_FUE_ACME_P01_USER_ROLE_DATA''"
    by (simp add: create_user_role_data_def get_user_role_data_tablename_def Let_def name_defs
        stored_state_def)
  have m: "ustr ''Successfully loaded 0 records into '' @ ustr ''Z_FUE_ACME_P01_USER_ROLE_DATA''
           = ustr ''Successfully loaded 0 records into Z_FUE_ACME_P01_USER_ROLE_DATA''"
    by (simp add: ustr_def)
  have s: "stored ?st (ustr ''Z_FUE_ACME_P01_USER_ROLE_DATA'')
             = [[(''ROLE'', ustr ''X''), (''USER_NAME'', ustr ''Y'')]]"
    by (simp add: stored_state_def)
  show ?thesis
    using h1 h2 h3 h4 h5 h6 s
      csv_header_only_empties_table [OF h1 h2 h3 h4 h5 h6, of ucd_excerpt
        "ustr ''Acme''" "ustr ''p01''" ?st]
    unfolding t m
    by simp
qed

lemma csv_no_lines_fails:
  assumes "(ld, cr, fm) \<in> set csv_loaders"
    and "decode_csv_content L content = Inr text"
    and "csv_reader L (splitlines L text) = []"
    and "create_error F = None" and "delete_error F = None"
  shows "fst (ld U L F (Some content) client_name system_name st)
           = Inl (DataLoaderError (ustr ''Failed loading CSV data: ''))"
    and "stored (snd (ld U L F (Some content) client_name system_name st)) = stored st"
proof -
  let ?run = "ld U L F (Some content) client_name system_name st"
  have ld: "ld = load_csv_upload cr fm"
    by (rule csv_loaders_cases(1) [OF assms(1)])
  have p: "parse_csv L fm content = Inl []"
    using assms(2) assms(3) by (simp add: parse_csv_def)
  show f: "fst ?run = Inl (DataLoaderError (ustr ''Failed loading CSV data: ''))"
    using load_csv_upload_parse_fails(2) [OF p assms(4) assms(5)] ld by simp
  then have "load_csv_upload cr fm U L F (Some content) client_name system_name st
               = (Inl (DataLoaderError (ustr ''Failed loading CSV data: '')), snd ?run)"
    using ld by (metis prod.collapse)
  then show "stored (snd ?run) = stored st"
    by (rule load_csv_upload_failure(1))
qed

text \<open>
  C3. Input with zero data rows is meant to load zero records and commit the truncate, as the
  path above does. On the input with no line at all the code misses that:
  \<open>next(csv_reader)\<close> has no header to skip and raises \<open>StopIteration\<close>, the load
  fails with a \<open>DataLoaderError\<close> whose cause is empty, and the table keeps its rows.
\<close>

theorem csv_empty_input_fails:
  "csv_reader plain_lib (splitlines plain_lib []) = []
   \<and> fst (load_user_role_map_data_from_csv_upload ucd_excerpt plain_lib no_faults
            (Some []) (ustr ''Acme'') (ustr ''p01'')
            (stored_state (ustr ''Z_FUE_ACME_P01_USER_ROLE_DATA'')
               [[(''ROLE'', ustr ''X''), (''USER_NAME'', ustr ''Y'')]]))
       = Inl (DataLoaderError (ustr ''Failed loading CSV data: ''))
   \<and> stored (snd (load_user_role_map_data_from_csv_upload ucd_excerpt plain_lib no_faults
            (Some []) (ustr ''Acme'') (ustr ''p01'')
            (stored_state (ustr ''Z_FUE_ACME_P01_USER_ROLE_DATA'')
               [[(''ROLE'', ustr ''X''), (''USER_NAME'', ustr ''Y'')]])))
         (ustr ''Z_FUE_ACME_P01_USER_ROLE_DATA'')
       = [[(''ROLE'', ustr ''X''), (''USER_NAME'', ustr ''Y'')]]"
  by (simp add: load_user_role_map_data_from_csv_upload_def run_defs
      create_user_role_data_def get_user_role_data_tablename_def name_defs user_role_field_map_def)

section \<open>The XML loop\<close>


lemma lice_items_append:
  "lice_items (xs @ ys) acc = lice_items ys (lice_items xs acc)"
  by (induction xs arbitrary: acc) auto

lemma lice_item_header:
  "\<not> detail_row item \<Longrightarrow> snd (lice_item item acc) = snd acc"
  by (simp add: lice_item_def detail_row_def Let_def)

lemma lice_item_roles_other:
  "\<not> role_header r item \<Longrightarrow> fst (lice_item item acc) r = fst acc r"
  by (auto simp: lice_item_def role_header_def Let_def)

lemma lice_item_roles_header:
  "role_header r item \<Longrightarrow>
   fst (lice_item item acc) r =
     Some [(''AGR_TEXT'', findtext item (ustr ''AGR_TEXT'') []),
           (''AGR_CLASSIF'', findtext item (ustr ''AGR_CLASSIF'') []),
           (''AGR_RATIO'', findtext item (ustr ''AGR_RATIO'') []),
           (''AGR_OBJECTS'', findtext item (ustr ''AGR_OBJECTS'') (ustr ''0'')),
           (''AGR_USERS'', findtext item (ustr ''AGR_USERS'') (ustr ''0''))]"
  by (auto simp: lice_item_def role_header_def Let_def)

lemma lice_items_roles_other:
  "\<forall>item\<in>set items. \<not> role_header r item \<Longrightarrow> fst (lice_items items acc) r = fst acc r"
  by (induction items arbitrary: acc) (auto simp: lice_item_roles_other)

lemma lice_items_grow:
  "\<exists>new. snd (lice_items items acc) = snd acc @ new
         \<and> length new = length (filter detail_row items)"
proof (induction items arbitrary: acc)
  case Nil
  show ?case by simp
next
  case (Cons item items)
  obtain new where new: "snd (lice_items items (lice_item item acc)) = snd (lice_item item acc) @ new"
    "length new = length (filter detail_row items)"
    using Cons.IH by blast
  show ?case
  proof (cases "detail_row item")
    case True
    then obtain obj where "snd (lice_item item acc) = snd acc @ [obj]"
      by (auto simp: lice_item_def detail_row_def Let_def)
    with new True show ?thesis by simp
  next
    case False
    with new lice_item_header [OF False] show ?thesis by simp
  qed
qed

lemma lice_items_length:
  "length (snd (lice_items items (ri, []))) = length (filter detail_row items)"
  using lice_items_grow [of items "(ri, [])"] by auto

lemma lice_items_empty_iff:
  "snd (lice_items items (ri, [])) = [] \<longleftrightarrow> (\<forall>item\<in>set items. \<not> detail_row item)"
proof -
  have "snd (lice_items items (ri, [])) = [] \<longleftrightarrow> length (filter detail_row items) = 0"
    using lice_items_length [of items ri] by (metis length_0_conv)
  then show ?thesis by (simp add: filter_empty_conv)
qed

text \<open>The object built for a detail row, given the roles seen so far.\<close>

lemma lice_item_detail:
  assumes "detail_row item"
  shows "\<exists>obj. lice_item item acc = (fst acc, snd acc @ [obj])
           \<and> map_of obj ''AGR_NAME'' = Some (findtext item (ustr ''AGR_NAME'') [])
           \<and> map_of obj ''OBJECT'' = Some (findtext item (ustr ''OBJECT'') [])
           \<and> map_of obj ''AGR_TEXT'' = Some (dict_get (case fst acc (findtext item (ustr ''AGR_NAME'') []) of Some d \<Rightarrow> d | None \<Rightarrow> []) ''AGR_TEXT'' (findtext item (ustr ''AGR_TEXT'') []))
           \<and> map_of obj ''AGR_CLASSIF'' = Some (dict_get (case fst acc (findtext item (ustr ''AGR_NAME'') []) of Some d \<Rightarrow> d | None \<Rightarrow> []) ''AGR_CLASSIF'' (findtext item (ustr ''AGR_CLASSIF'') []))
           \<and> map_of obj ''AGR_RATIO'' = Some (dict_get (case fst acc (findtext item (ustr ''AGR_NAME'') []) of Some d \<Rightarrow> d | None \<Rightarrow> []) ''AGR_RATIO'' (findtext item (ustr ''AGR_RATIO'') []))
           \<and> map_of obj ''AGR_OBJECTS'' = Some (dict_get (case fst acc (findtext item (ustr ''AGR_NAME'') []) of Some d \<Rightarrow> d | None \<Rightarrow> []) ''AGR_OBJECTS'' (findtext item (ustr ''AGR_OBJECTS'') (ustr ''0'')))
           \<and> map_of obj ''AGR_USERS'' = Some (dict_get (case fst acc (findtext item (ustr ''AGR_NAME'') []) of Some d \<Rightarrow> d | None \<Rightarrow> []) ''AGR_USERS'' (findtext item (ustr ''AGR_USERS'') (ustr ''0'')))"
  using assms by (simp add: lice_item_def detail_row_def Let_def)

text \<open>
  C4, as the code has it. With no failing database call, the XML load fails when the parser
  raises (a \<open>ParseError\<close> for a malformed document, reported as \<open>XML ParseError\<close>,
  or any other exception, reported as \<open>Failed loading XML data\<close>), when no item element
  is found, and also when no item is a detail row; otherwise it succeeds, loads one record
  per detail row and none for a header, and the committed table holds exactly those
  records.
\<close>

theorem xml_load_outcome:
  assumes "create_error F = None" and "delete_error F = None" and "commit_error F = None"
  shows "fst (load_lice_data_from_xml_upload U L F (Some content) client_name system_name st) =
           (case et_findall_items L content of
              XmlParseError e \<Rightarrow> Inl (DataLoaderError (ustr ''XML ParseError: '' @ e))
            | XmlOtherError e \<Rightarrow> Inl (DataLoaderError (ustr ''Failed loading XML data: '' @ e))
            | XmlItems items \<Rightarrow>
                if items = []
                then Inl (DataLoaderError
                            (ustr ''Failed loading XML data: No <item> elements found in XML.''))
                else if filter detail_row items = []
                then Inl (DataLoaderError
                            (ustr ''Failed loading XML data: No valid object data found.''))
                else Inr \<lparr>message = ustr ''Successfully loaded ''
                                      @ str_nat (length (filter detail_row items))
                                      @ ustr '' records into ''
                                      @ tablename (fst (create_lice_data_model U client_name
                                                          system_name (cache st))),
                          table_name = Some (tablename (fst (create_lice_data_model U client_name
                                                               system_name (cache st)))),
                          records_loaded = length (filter detail_row items)\<rparr>)
         \<and> stored (snd (load_lice_data_from_xml_upload U L F (Some content) client_name
                           system_name st))
             (tablename (fst (create_lice_data_model U client_name system_name (cache st)))) =
           (case et_findall_items L content of
              XmlParseError e \<Rightarrow>
                stored st (tablename (fst (create_lice_data_model U client_name
                                             system_name (cache st))))
            | XmlOtherError e \<Rightarrow>
                stored st (tablename (fst (create_lice_data_model U client_name
                                             system_name (cache st))))
            | XmlItems items \<Rightarrow>
                if filter detail_row items = []
                then stored st (tablename (fst (create_lice_data_model U client_name
                                                  system_name (cache st))))
                else snd (lice_items items (Map.empty, [])))"
proof -
  let ?run = "load_lice_data_from_xml_upload U L F (Some content) client_name system_name st"
  let ?tn = "tablename (fst (create_lice_data_model U client_name system_name (cache st)))"
  have kept: "stored (snd ?run) = stored st" if "fst ?run = Inl e" for e
  proof -
    from that have "?run = (Inl e, snd ?run)" by (metis prod.collapse)
    then show ?thesis by (rule load_lice_failure(1))
  qed
  have m: "ustr ''Failed loading XML data: '' @ ustr ''No <item> elements found in XML.''
             = ustr ''Failed loading XML data: No <item> elements found in XML.''"
    "ustr ''Failed loading XML data: '' @ ustr ''No valid object data found.''
             = ustr ''Failed loading XML data: No valid object data found.''"
    by (simp_all add: ustr_def)
  show ?thesis
  proof (cases "et_findall_items L content")
    case (XmlParseError e)
    then have p: "parse_lice_xml L content = Inl (ustr ''XML ParseError: '' @ e)"
      by (simp add: parse_lice_xml_def)
    have f: "fst ?run = Inl (DataLoaderError (ustr ''XML ParseError: '' @ e))"
      using load_lice_parse_fails(2) [OF p assms(1) assms(2)] .
    with kept [OF f] XmlParseError show ?thesis by simp
  next
    case (XmlOtherError e)
    then have p: "parse_lice_xml L content = Inl (ustr ''Failed loading XML data: '' @ e)"
      by (simp add: parse_lice_xml_def)
    have f: "fst ?run = Inl (DataLoaderError (ustr ''Failed loading XML data: '' @ e))"
      using load_lice_parse_fails(2) [OF p assms(1) assms(2)] .
    with kept [OF f] XmlOtherError show ?thesis by simp
  next
    case (XmlItems items)
    have none: "snd (lice_items items (Map.empty, [])) = [] \<longleftrightarrow> filter detail_row items = []"
      using lice_items_empty_iff [of items Map.empty] by (simp add: filter_empty_conv)
    show ?thesis
    proof (cases "filter detail_row items = []")
      case True
      have p: "parse_lice_xml L content =
                 Inl (if items = []
                      then ustr ''Failed loading XML data: No <item> elements found in XML.''
                      else ustr ''Failed loading XML data: No valid object data found.'')"
        using XmlItems True none by (simp add: parse_lice_xml_def Let_def m)
      have f: "fst ?run =
                 Inl (DataLoaderError
                        (if items = []
                         then ustr ''Failed loading XML data: No <item> elements found in XML.''
                         else ustr ''Failed loading XML data: No valid object data found.''))"
        using load_lice_parse_fails(2) [OF p assms(1) assms(2)] .
      with kept [OF f] XmlItems True show ?thesis by simp
    next
      case False
      then have ne: "items \<noteq> []" by auto
      have p: "parse_lice_xml L content = Inr (snd (lice_items items (Map.empty, [])))"
        using XmlItems False none ne by (simp add: parse_lice_xml_def Let_def)
      show ?thesis
        using load_lice_success [OF p assms, of U client_name system_name st] XmlItems False ne
        by (simp add: lice_items_length)
    qed
  qed
qed

lemmas xml_run_defs = load_lice_data_from_xml_upload_def Let_def ensure_table_exists_def
  has_table_def db_query_delete_def db_rollback_def db_add_all_def db_commit_def no_faults_def
  stored_state_def empty_state_def parse_lice_xml_def xml_lib_def plain_lib_def lice_item_def
  findtext_def findtext_opt_def dict_get_def str_nat.simps create_lice_data_model_def
  get_lice_data_tablename_def

theorem xml_load_outcome_witness:
  "create_error no_faults = None \<and> delete_error no_faults = None \<and> commit_error no_faults = None
   \<and> filter detail_row
        [[(ustr ''AGR_NAME'', ustr ''R2''), (ustr ''AGR_CLASSIF'', ustr ''B'')],
         [(ustr ''AGR_NAME'', ustr ''R1''), (ustr ''OBJECT'', ustr ''O1'')]]
       = [[(ustr ''AGR_NAME'', ustr ''R1''), (ustr ''OBJECT'', ustr ''O1'')]]
   \<and> fst (load_lice_data_from_xml_upload ucd_excerpt
            (xml_lib [[(ustr ''AGR_NAME'', ustr ''R2''), (ustr ''AGR_CLASSIF'', ustr ''B'')],
                      [(ustr ''AGR_NAME'', ustr ''R1''), (ustr ''OBJECT'', ustr ''O1'')]])
            no_faults (Some (bstr ''<xml>'')) (ustr ''Acme'') (ustr ''p01'') empty_state)
       = Inr \<lparr>message = ustr ''Successfully loaded 1 records into Z_FUE_ACME_P01_ROLE_OBJ_LICENSE_INFO'',
              table_name = Some (ustr ''Z_FUE_ACME_P01_ROLE_OBJ_LICENSE_INFO''),
              records_loaded = 1\<rparr>"
proof -
  let ?items = "[[(ustr ''AGR_NAME'', ustr ''R2''), (ustr ''AGR_CLASSIF'', ustr ''B'')],
                 [(ustr ''AGR_NAME'', ustr ''R1''), (ustr ''OBJECT'', ustr ''O1'')]]"
  have h1: "create_error no_faults = None" and h2: "delete_error no_faults = None"
    and h3: "commit_error no_faults = None"
    by (simp_all add: no_faults_def)
  have d: "filter detail_row ?items = [[(ustr ''AGR_NAME'', ustr ''R1''), (ustr ''OBJECT'', ustr ''O1'')]]"
    by (simp add: detail_row_def findtext_def ustr_def)
  have e: "et_findall_items (xml_lib ?items) (bstr ''<xml>'') = XmlItems ?items"
    by (simp add: xml_lib_def)
  have t: "tablename (fst (create_lice_data_model ucd_excerpt (ustr ''Acme'') (ustr ''p01'')
                             (cache empty_state)))
             = ustr ''Z_FUE_ACME_P01_ROLE_OBJ_LICENSE_INFO''"
    by (simp add: create_lice_data_model_def get_lice_data_tablename_def Let_def name_defs
        empty_state_def)
  have m: "ustr ''Successfully loaded '' @ str_nat (Suc 0)
             @ ustr '' records into '' @ ustr ''Z_FUE_ACME_P01_ROLE_OBJ_LICENSE_INFO''
           = ustr ''Successfully loaded 1 records into Z_FUE_ACME_P01_ROLE_OBJ_LICENSE_INFO''"
    by (simp add: ustr_def str_nat.simps)
  show ?thesis
    using h1 h2 h3 d
      xml_load_outcome [OF h1 h2 h3, of ucd_excerpt "xml_lib ?items" "bstr ''<xml>''"
        "ustr ''Acme''" "ustr ''p01''" empty_state]
    unfolding e t
    by (simp add: d m del: filter.simps)
qed

text \<open>
  C4 as stated fails on a well-formed document whose only item is a role header: the item
  is found, no record is produced, and the load is an error.
\<close>

theorem xml_header_only_counterexample:
  "et_findall_items (xml_lib [[(ustr ''AGR_NAME'', ustr ''R1''), (ustr ''AGR_CLASSIF'', ustr ''C'')]])
       (bstr ''<xml>'')
     = XmlItems [[(ustr ''AGR_NAME'', ustr ''R1''), (ustr ''AGR_CLASSIF'', ustr ''C'')]]
   \<and> role_header (ustr ''R1'') [(ustr ''AGR_NAME'', ustr ''R1''), (ustr ''AGR_CLASSIF'', ustr ''C'')]
   \<and> fst (load_lice_data_from_xml_upload ucd_excerpt
            (xml_lib [[(ustr ''AGR_NAME'', ustr ''R1''), (ustr ''AGR_CLASSIF'', ustr ''C'')]])
            no_faults (Some (bstr ''<xml>'')) (ustr ''Acme'') (ustr ''p01'') empty_state)
       = Inl (DataLoaderError (ustr ''Failed loading XML data: No valid object data found.''))"
  by (simp add: xml_run_defs role_header_def name_defs)

text \<open>
  A document whose encoding the parser does not support raises a \<open>ValueError\<close>, which
  is not a \<open>ParseError\<close>, and is reported by the general handler.
\<close>

lemma xml_unsupported_encoding_example:
  "fst (load_lice_data_from_xml_upload ucd_excerpt
          (plain_lib\<lparr>et_findall_items :=
             (\<lambda>bs. XmlOtherError (ustr ''multi-byte encodings are not supported''))\<rparr>)
          no_faults (Some (bstr ''<xml>'')) (ustr ''Acme'') (ustr ''p01'') empty_state)
     = Inl (DataLoaderError
              (ustr ''Failed loading XML data: multi-byte encodings are not supported''))"
  by (simp add: xml_run_defs name_defs)

lemma lice_items_split:
  assumes "detail_row det"
  shows "\<exists>obj rest.
           snd (lice_items (before @ det # post) acc) = snd (lice_items before acc) @ obj # rest
           \<and> lice_item det (lice_items before acc)
               = (fst (lice_items before acc), snd (lice_items before acc) @ [obj])"
proof -
  obtain obj where obj: "lice_item det (lice_items before acc)
      = (fst (lice_items before acc), snd (lice_items before acc) @ [obj])"
    using lice_item_detail [OF assms, of "lice_items before acc"] by blast
  obtain new where "snd (lice_items post (lice_item det (lice_items before acc)))
      = snd (lice_item det (lice_items before acc)) @ new"
    using lice_items_grow [of post "lice_item det (lice_items before acc)"] by blast
  with obj have "snd (lice_items (before @ det # post) acc)
      = snd (lice_items before acc) @ obj # new"
    by (simp add: lice_items_append)
  with obj show ?thesis by blast
qed

text \<open>
  C5. First part: a role header for role \<open>r\<close> with \<open>AGR_CLASSIF\<close> \<open>c\<close>, then items
  none of which is a header for \<open>r\<close>, then a detail row of role \<open>r\<close>: the record
  produced for that detail row (the one appended to the records of the items before it)
  has \<open>AGR_CLASSIF\<close> \<open>c\<close>, whether or not the detail row has such a field itself.
  Second part: a detail row preceded by no header for its role takes the five aggregate
  fields from its own children of the same names; an absent \<open>AGR_OBJECTS\<close> or
  \<open>AGR_USERS\<close> becomes \<open>0\<close>, an absent text field the empty string.
\<close>

theorem xml_aggregate_propagation:
  "(role_header r hdr \<and> findtext_opt hdr (ustr ''AGR_CLASSIF'') = Some c
      \<and> detail_row det \<and> findtext det (ustr ''AGR_NAME'') [] = r
      \<and> (\<forall>item\<in>set mid. \<not> role_header r item)
    \<longrightarrow> (\<exists>obj rest.
           snd (lice_items (pre @ hdr # mid @ det # post) (Map.empty, []))
             = snd (lice_items (pre @ hdr # mid) (Map.empty, [])) @ obj # rest
           \<and> map_of obj ''AGR_NAME'' = Some r
           \<and> map_of obj ''OBJECT'' = Some (findtext det (ustr ''OBJECT'') [])
           \<and> map_of obj ''AGR_CLASSIF'' = Some c))
   \<and> (detail_row det' \<and> (\<forall>item\<in>set pre'. \<not> role_header (findtext det' (ustr ''AGR_NAME'') []) item)
    \<longrightarrow> (\<exists>obj rest.
           snd (lice_items (pre' @ det' # post') (Map.empty, []))
             = snd (lice_items pre' (Map.empty, [])) @ obj # rest
           \<and> map_of obj ''AGR_TEXT''
               = Some (case findtext_opt det' (ustr ''AGR_TEXT'') of Some v \<Rightarrow> v | None \<Rightarrow> [])
           \<and> map_of obj ''AGR_CLASSIF''
               = Some (case findtext_opt det' (ustr ''AGR_CLASSIF'') of Some v \<Rightarrow> v | None \<Rightarrow> [])
           \<and> map_of obj ''AGR_RATIO''
               = Some (case findtext_opt det' (ustr ''AGR_RATIO'') of Some v \<Rightarrow> v | None \<Rightarrow> [])
           \<and> map_of obj ''AGR_OBJECTS''
               = Some (case findtext_opt det' (ustr ''AGR_OBJECTS'') of
                         Some v \<Rightarrow> v | None \<Rightarrow> ustr ''0'')
           \<and> map_of obj ''AGR_USERS''
               = Some (case findtext_opt det' (ustr ''AGR_USERS'') of
                         Some v \<Rightarrow> v | None \<Rightarrow> ustr ''0'')))"
proof (intro conjI impI)
  assume a: "role_header r hdr \<and> findtext_opt hdr (ustr ''AGR_CLASSIF'') = Some c
      \<and> detail_row det \<and> findtext det (ustr ''AGR_NAME'') [] = r
      \<and> (\<forall>item\<in>set mid. \<not> role_header r item)"
  let ?acc = "lice_items (pre @ hdr # mid) (Map.empty, [])"
  have c: "findtext hdr (ustr ''AGR_CLASSIF'') [] = c"
    using a by (simp add: findtext_def findtext_opt_def)
  have "fst ?acc r = fst (lice_item hdr (lice_items pre (Map.empty, []))) r"
    using a by (simp add: lice_items_append lice_items_roles_other)
  then have info: "fst ?acc r =
     Some [(''AGR_TEXT'', findtext hdr (ustr ''AGR_TEXT'') []),
           (''AGR_CLASSIF'', c),
           (''AGR_RATIO'', findtext hdr (ustr ''AGR_RATIO'') []),
           (''AGR_OBJECTS'', findtext hdr (ustr ''AGR_OBJECTS'') (ustr ''0'')),
           (''AGR_USERS'', findtext hdr (ustr ''AGR_USERS'') (ustr ''0''))]"
    using a lice_item_roles_header [of r hdr] c by simp
  have d: "detail_row det" using a by simp
  obtain obj rest where o:
    "snd (lice_items ((pre @ hdr # mid) @ det # post) (Map.empty, [])) = snd ?acc @ obj # rest"
    "lice_item det ?acc = (fst ?acc, snd ?acc @ [obj])"
    using lice_items_split [OF d, of "pre @ hdr # mid" post "(Map.empty, [])"] by blast
  have "map_of obj ''AGR_NAME'' = Some r \<and> map_of obj ''OBJECT'' = Some (findtext det (ustr ''OBJECT'') [])
        \<and> map_of obj ''AGR_CLASSIF'' = Some c"
    using lice_item_detail [OF d, of ?acc] o(2) a info
    by (auto simp: dict_get_def)
  with o(1) show "\<exists>obj rest.
           snd (lice_items (pre @ hdr # mid @ det # post) (Map.empty, []))
             = snd (lice_items (pre @ hdr # mid) (Map.empty, [])) @ obj # rest
           \<and> map_of obj ''AGR_NAME'' = Some r
           \<and> map_of obj ''OBJECT'' = Some (findtext det (ustr ''OBJECT'') [])
           \<and> map_of obj ''AGR_CLASSIF'' = Some c"
    by auto
next
  assume a: "detail_row det' \<and> (\<forall>item\<in>set pre'. \<not> role_header (findtext det' (ustr ''AGR_NAME'') []) item)"
  let ?acc = "lice_items pre' (Map.empty, [])"
  have none: "fst ?acc (findtext det' (ustr ''AGR_NAME'') []) = None"
    using a lice_items_roles_other [of pre' "findtext det' (ustr ''AGR_NAME'') []" "(Map.empty, [])"]
    by simp
  have d: "detail_row det'" using a by simp
  obtain obj rest where o:
    "snd (lice_items (pre' @ det' # post') (Map.empty, [])) = snd ?acc @ obj # rest"
    "lice_item det' ?acc = (fst ?acc, snd ?acc @ [obj])"
    using lice_items_split [OF d, of pre' post' "(Map.empty, [])"] by blast
  have "map_of obj ''AGR_TEXT''
               = Some (case findtext_opt det' (ustr ''AGR_TEXT'') of Some v \<Rightarrow> v | None \<Rightarrow> [])
           \<and> map_of obj ''AGR_CLASSIF''
               = Some (case findtext_opt det' (ustr ''AGR_CLASSIF'') of Some v \<Rightarrow> v | None \<Rightarrow> [])
           \<and> map_of obj ''AGR_RATIO''
               = Some (case findtext_opt det' (ustr ''AGR_RATIO'') of Some v \<Rightarrow> v | None \<Rightarrow> [])
           \<and> map_of obj ''AGR_OBJECTS''
               = Some (case findtext_opt det' (ustr ''AGR_OBJECTS'') of
                         Some v \<Rightarrow> v | None \<Rightarrow> ustr ''0'')
           \<and> map_of obj ''AGR_USERS''
               = Some (case findtext_opt det' (ustr ''AGR_USERS'') of
                         Some v \<Rightarrow> v | None \<Rightarrow> ustr ''0'')"
    using lice_item_detail [OF d, of ?acc] o(2) none
    by (auto simp: dict_get_def findtext_def findtext_opt_def)
  with o(1) show "\<exists>obj rest.
           snd (lice_items (pre' @ det' # post') (Map.empty, []))
             = snd (lice_items pre' (Map.empty, [])) @ obj # rest
           \<and> map_of obj ''AGR_TEXT''
               = Some (case findtext_opt det' (ustr ''AGR_TEXT'') of Some v \<Rightarrow> v | None \<Rightarrow> [])
           \<and> map_of obj ''AGR_CLASSIF''
               = Some (case findtext_opt det' (ustr ''AGR_CLASSIF'') of Some v \<Rightarrow> v | None \<Rightarrow> [])
           \<and> map_of obj ''AGR_RATIO''
               = Some (case findtext_opt det' (ustr ''AGR_RATIO'') of Some v \<Rightarrow> v | None \<Rightarrow> [])
           \<and> map_of obj ''AGR_OBJECTS''
               = Some (case findtext_opt det' (ustr ''AGR_OBJECTS'') of
                         Some v \<Rightarrow> v | None \<Rightarrow> ustr ''0'')
           \<and> map_of obj ''AGR_USERS''
               = Some (case findtext_opt det' (ustr ''AGR_USERS'') of
                         Some v \<Rightarrow> v | None \<Rightarrow> ustr ''0'')"
    by auto
qed

theorem xml_aggregate_propagation_witness:
  "(role_header (ustr ''R1'') [(ustr ''AGR_NAME'', ustr ''R1''), (ustr ''AGR_CLASSIF'', ustr ''C'')]
    \<and> findtext_opt [(ustr ''AGR_NAME'', ustr ''R1''), (ustr ''AGR_CLASSIF'', ustr ''C'')]
         (ustr ''AGR_CLASSIF'') = Some (ustr ''C'')
    \<and> detail_row [(ustr ''AGR_NAME'', ustr ''R1''), (ustr ''OBJECT'', ustr ''O1'')]
    \<and> findtext [(ustr ''AGR_NAME'', ustr ''R1''), (ustr ''OBJECT'', ustr ''O1'')]
         (ustr ''AGR_NAME'') [] = ustr ''R1''
    \<and> list_all (\<lambda>item. \<not> role_header (ustr ''R1'') item) [])
   \<and> (detail_row [(ustr ''AGR_NAME'', ustr ''R9''), (ustr ''OBJECT'', ustr ''O2'')]
    \<and> list_all
         (\<lambda>item. \<not> role_header (findtext [(ustr ''AGR_NAME'', ustr ''R9''), (ustr ''OBJECT'', ustr ''O2'')]
                                   (ustr ''AGR_NAME'') []) item)
         [[(ustr ''AGR_NAME'', ustr ''R1''), (ustr ''AGR_CLASSIF'', ustr ''C'')]])
   \<and> (\<exists>obj rest.
         snd (lice_items ([] @ [(ustr ''AGR_NAME'', ustr ''R1''), (ustr ''AGR_CLASSIF'', ustr ''C'')]
                # [] @ [(ustr ''AGR_NAME'', ustr ''R1''), (ustr ''OBJECT'', ustr ''O1'')] # [])
                (Map.empty, []))
           = snd (lice_items ([] @ [(ustr ''AGR_NAME'', ustr ''R1''), (ustr ''AGR_CLASSIF'', ustr ''C'')]
                    # []) (Map.empty, [])) @ obj # rest
         \<and> map_of obj ''AGR_NAME'' = Some (ustr ''R1'')
         \<and> map_of obj ''OBJECT''
             = Some (findtext [(ustr ''AGR_NAME'', ustr ''R1''), (ustr ''OBJECT'', ustr ''O1'')]
                       (ustr ''OBJECT'') [])
         \<and> map_of obj ''AGR_CLASSIF'' = Some (ustr ''C''))
   \<and> snd (lice_items [[(ustr ''AGR_NAME'', ustr ''R1''), (ustr ''AGR_CLASSIF'', ustr ''C'')],
                       [(ustr ''AGR_NAME'', ustr ''R1''), (ustr ''OBJECT'', ustr ''O1'')]]
            (Map.empty, []))
       = [[(''AGR_NAME'', ustr ''R1''), (''OBJECT'', ustr ''O1''), (''TTEXT'', []), (''FIELD'', []),
           (''LOW'', []), (''HIGH'', []), (''CLASSIF_S4'', []), (''AGR_TEXT'', []),
           (''AGR_CLASSIF'', ustr ''C''), (''AGR_RATIO'', []), (''AGR_OBJECTS'', ustr ''0''),
           (''AGR_USERS'', ustr ''0'')]]
   \<and> snd (lice_items [[(ustr ''AGR_NAME'', ustr ''R1''), (ustr ''AGR_CLASSIF'', ustr ''C'')],
                       [(ustr ''AGR_NAME'', ustr ''R9''), (ustr ''OBJECT'', ustr ''O2'')]]
            (Map.empty, []))
       = [[(''AGR_NAME'', ustr ''R9''), (''OBJECT'', ustr ''O2''), (''TTEXT'', []), (''FIELD'', []),
           (''LOW'', []), (''HIGH'', []), (''CLASSIF_S4'', []), (''AGR_TEXT'', []),
           (''AGR_CLASSIF'', []), (''AGR_RATIO'', []), (''AGR_OBJECTS'', ustr ''0''),
           (''AGR_USERS'', ustr ''0'')]]"
proof -
  let ?hdr = "[(ustr ''AGR_NAME'', ustr ''R1''), (ustr ''AGR_CLASSIF'', ustr ''C'')]"
  let ?det = "[(ustr ''AGR_NAME'', ustr ''R1''), (ustr ''OBJECT'', ustr ''O1'')]"
  let ?det' = "[(ustr ''AGR_NAME'', ustr ''R9''), (ustr ''OBJECT'', ustr ''O2'')]"
  have h1: "role_header (ustr ''R1'') ?hdr \<and> findtext_opt ?hdr (ustr ''AGR_CLASSIF'') = Some (ustr ''C'')
    \<and> detail_row ?det \<and> findtext ?det (ustr ''AGR_NAME'') [] = ustr ''R1''
    \<and> (\<forall>item\<in>set []. \<not> role_header (ustr ''R1'') item)"
    by (simp add: role_header_def detail_row_def findtext_def findtext_opt_def ustr_def)
  have h2: "detail_row ?det'
    \<and> (\<forall>item\<in>set [?hdr]. \<not> role_header (findtext ?det' (ustr ''AGR_NAME'') []) item)"
    by (simp add: role_header_def detail_row_def findtext_def findtext_opt_def ustr_def)
  have v1: "snd (lice_items [?hdr, ?det] (Map.empty, []))
       = [[(''AGR_NAME'', ustr ''R1''), (''OBJECT'', ustr ''O1''), (''TTEXT'', []), (''FIELD'', []),
           (''LOW'', []), (''HIGH'', []), (''CLASSIF_S4'', []), (''AGR_TEXT'', []),
           (''AGR_CLASSIF'', ustr ''C''), (''AGR_RATIO'', []), (''AGR_OBJECTS'', ustr ''0''),
           (''AGR_USERS'', ustr ''0'')]]"
    by (simp add: lice_item_def Let_def findtext_def findtext_opt_def dict_get_def ustr_def)
  have v2: "snd (lice_items [?hdr, ?det'] (Map.empty, []))
       = [[(''AGR_NAME'', ustr ''R9''), (''OBJECT'', ustr ''O2''), (''TTEXT'', []), (''FIELD'', []),
           (''LOW'', []), (''HIGH'', []), (''CLASSIF_S4'', []), (''AGR_TEXT'', []),
           (''AGR_CLASSIF'', []), (''AGR_RATIO'', []), (''AGR_OBJECTS'', ustr ''0''),
           (''AGR_USERS'', ustr ''0'')]]"
    by (simp add: lice_item_def Let_def findtext_def findtext_opt_def dict_get_def ustr_def)
  note t = xml_aggregate_propagation [of "ustr ''R1''" ?hdr "ustr ''C''" ?det "[]" "[]" "[]"
      ?det' "[?hdr]" "[]"]
  from t h1 have c1: "\<exists>obj rest.
         snd (lice_items ([] @ ?hdr # [] @ ?det # []) (Map.empty, []))
           = snd (lice_items ([] @ ?hdr # []) (Map.empty, [])) @ obj # rest
         \<and> map_of obj ''AGR_NAME'' = Some (ustr ''R1'')
         \<and> map_of obj ''OBJECT'' = Some (findtext ?det (ustr ''OBJECT'') [])
         \<and> map_of obj ''AGR_CLASSIF'' = Some (ustr ''C'')"
    by blast
  from h1 h2 c1 v1 v2 show ?thesis
    by (simp add: list_all_iff)
qed

end
